theory Spec2Isabelle
  imports Main "HOL-Library.Word"
begin

section \<open>The tagged union of \<open>lib/include/srslte/common/choice_type.h\<close>\<close>

subsection \<open>Types as data\<close>

text \<open>
  The header computes with C++ types at compile time. A type is modelled by its name and
  its reference and const qualifiers, which is what \<open>std::is_same\<close> and \<open>std::decay\<close>
  look at. Array and function types (which \<open>std::decay\<close> turns into pointers) are not
  modelled: no alternative of a union is one.
\<close>

datatype cpp_type = Void | Class string | Const cpp_type | LRef cpp_type | RRef cpp_type

fun remove_reference :: "cpp_type \<Rightarrow> cpp_type" where
  "remove_reference (LRef t) = t"
| "remove_reference (RRef t) = t"
| "remove_reference t = t"

fun remove_cv :: "cpp_type \<Rightarrow> cpp_type" where
  "remove_cv (Const t) = t"
| "remove_cv t = t"

definition decay :: "cpp_type \<Rightarrow> cpp_type" where
  "decay t = remove_cv (remove_reference t)"

text \<open>\<open>size_idx_t\<close> is \<open>std::size_t\<close>, taken as 64 bits wide (LP64).\<close>

type_synonym size_idx_t = "64 word"

definition invalid_idx :: size_idx_t where
  "invalid_idx = - 1"

text \<open>
  \<open>type_indexer<T, Types...>::index\<close>: the index of a type in a list of types, reversed:
  the number of types that follow the first occurrence of \<open>T\<close>.
\<close>

fun type_indexer :: "cpp_type \<Rightarrow> cpp_type list \<Rightarrow> size_idx_t" where
  "type_indexer T [] = invalid_idx"
| "type_indexer T (First # Types) =
     (if T = First then of_nat (length Types) else type_indexer T Types)"

text \<open>\<open>type_get<I, Types...>::type\<close>: the type at an index of a list of types.\<close>

fun type_get :: "size_idx_t \<Rightarrow> cpp_type list \<Rightarrow> cpp_type" where
  "type_get I [] = Void"
| "type_get I (First # Types) =
     (if I = of_nat (length Types) then First else type_get I Types)"

subsection \<open>Storage and tagged union\<close>

text \<open>
  \<open>tagged_union_t<Args...>\<close> is a \<open>type_id\<close> next to raw storage. The storage either
  holds no object or one object, of the type it was constructed as. The list \<open>destroyed\<close>
  records every destructor call: the type whose destructor ran and the value it ran on.
\<close>

record 'v tagged_union_t =
  type_id :: size_idx_t
  buffer :: "(cpp_type \<times> 'v) option"
  destroyed :: "(cpp_type \<times> 'v) list"

datatype choice_error = Bad_choice_access string | No_object

text \<open>
  \<open>get_unsafe<T>\<close> reinterprets the storage as a \<open>T\<close>. Reading it while it holds no
  \<open>T\<close> is undefined in C++; the model returns \<open>None\<close> there.
\<close>

definition get_unsafe :: "cpp_type \<Rightarrow> 'v tagged_union_t \<Rightarrow> 'v option" where
  "get_unsafe T c =
     (case buffer c of
        None \<Rightarrow> None
      | Some (T', v) \<Rightarrow> if T' = T then Some v else None)"

text \<open>\<open>destroy_unsafe<U>\<close> runs \<open>~U\<close> on the object in the storage.\<close>

definition destroy_unsafe :: "cpp_type \<Rightarrow> 'v tagged_union_t \<Rightarrow> 'v tagged_union_t" where
  "destroy_unsafe U c =
     (case buffer c of
        None \<Rightarrow> c
      | Some (T', v) \<Rightarrow> c\<lparr>buffer := None, destroyed := destroyed c @ [(U, v)]\<rparr>)"

text \<open>\<open>is<T>()\<close> compares the index of \<open>T\<close>, as written, with \<open>type_id\<close>.\<close>

definition is_t :: "cpp_type \<Rightarrow> cpp_type list \<Rightarrow> 'v tagged_union_t \<Rightarrow> bool" where
  "is_t T Args c = (type_indexer T Args = type_id c)"

definition can_hold_type :: "cpp_type \<Rightarrow> cpp_type list \<Rightarrow> bool" where
  "can_hold_type T Args = (type_indexer T Args \<noteq> invalid_idx)"

text \<open>
  \<open>construct_unsafe(U&& u)\<close> and \<open>construct_emplace_unsafe<U>(args...)\<close>: set \<open>type_id\<close>
  to the index of the decayed type and placement-construct the value in the storage,
  whatever the storage held.
\<close>

definition construct_unsafe ::
  "cpp_type \<Rightarrow> 'v \<Rightarrow> cpp_type list \<Rightarrow> 'v tagged_union_t \<Rightarrow> 'v tagged_union_t" where
  "construct_unsafe U u Args c =
     c\<lparr>type_id := type_indexer (decay U) Args, buffer := Some (decay U, u)\<rparr>"

definition construct_emplace_unsafe ::
  "cpp_type \<Rightarrow> 'v \<Rightarrow> cpp_type list \<Rightarrow> 'v tagged_union_t \<Rightarrow> 'v tagged_union_t" where
  "construct_emplace_unsafe U u Args c =
     c\<lparr>type_id := type_indexer (decay U) Args, buffer := Some (decay U, u)\<rparr>"

text \<open>
  \<open>visit_impl<F, V, Types...>::apply\<close> walks the remaining types: the first one for which
  \<open>is<First>()\<close> holds is visited, and the last type is visited without a test. The
  result is the alternative the functor is called with.
\<close>

fun visit_impl :: "cpp_type list \<Rightarrow> cpp_type list \<Rightarrow> 'v tagged_union_t \<Rightarrow> cpp_type option" where
  "visit_impl Args [] c = None"
| "visit_impl Args [T] c = Some T"
| "visit_impl Args (First # Types) c =
     (if is_t First Args c then Some First else visit_impl Args Types c)"

text \<open>\<open>dtor_unsafe\<close> visits the union with \<open>DtorUnsafeVisitor\<close>.\<close>

definition dtor_unsafe :: "cpp_type list \<Rightarrow> 'v tagged_union_t \<Rightarrow> 'v tagged_union_t" where
  "dtor_unsafe Args c =
     (case visit_impl Args Args c of
        None \<Rightarrow> c
      | Some T \<Rightarrow> destroy_unsafe T c)"

text \<open>
  \<open>get<T>()\<close> returns the value when \<open>T\<close> is the active alternative and throws
  \<open>bad_choice_access\<close> otherwise.
\<close>

definition get :: "cpp_type \<Rightarrow> cpp_type list \<Rightarrow> 'v tagged_union_t \<Rightarrow> choice_error + 'v" where
  "get T Args c =
     (if is_t T Args c
      then (case get_unsafe T c of None \<Rightarrow> Inl No_object | Some v \<Rightarrow> Inr v)
      else Inl (Bad_choice_access ''in get<T>''))"

subsection \<open>\<open>choice_t\<close>\<close>

text \<open>
  The converting constructor \<open>choice_t(U&& u)\<close>, on fresh storage. \<open>U\<close> is the deduced
  template argument: \<open>T\<close> for an rvalue of type \<open>T\<close>, \<open>T&\<close> for an lvalue, \<open>const T&\<close>
  for a const lvalue.
\<close>

definition raw_storage :: "'v tagged_union_t" where
  "raw_storage = \<lparr>type_id = 0, buffer = None, destroyed = []\<rparr>"

definition choice_t :: "cpp_type \<Rightarrow> 'v \<Rightarrow> cpp_type list \<Rightarrow> 'v tagged_union_t" where
  "choice_t U u Args = construct_unsafe U u Args raw_storage"

text \<open>
  \<open>choice_t::operator=(U&& u)\<close>: the old value is destroyed only if \<open>is<U>()\<close> is false,
  with \<open>U\<close> as deduced (not decayed); then the new value is constructed in place.
\<close>

definition operator_assign ::
  "cpp_type \<Rightarrow> 'v \<Rightarrow> cpp_type list \<Rightarrow> 'v tagged_union_t \<Rightarrow> 'v tagged_union_t" where
  "operator_assign U u Args c =
     (let c1 = (if \<not> is_t U Args c then dtor_unsafe Args c else c)
      in construct_unsafe U u Args c1)"

text \<open>\<open>choice_t::emplace<U>(args...)\<close>: destroy, then construct in place.\<close>

definition emplace ::
  "cpp_type \<Rightarrow> 'v \<Rightarrow> cpp_type list \<Rightarrow> 'v tagged_union_t \<Rightarrow> 'v tagged_union_t" where
  "emplace U u Args c = construct_emplace_unsafe U u Args (dtor_unsafe Args c)"

text \<open>
  A union is well formed for \<open>Args\<close> when its storage holds an object of one of the
  alternatives and \<open>type_id\<close> is the index of that alternative.
\<close>

definition holds :: "cpp_type list \<Rightarrow> 'v tagged_union_t \<Rightarrow> cpp_type \<Rightarrow> 'v \<Rightarrow> bool" where
  "holds Args c T v =
     (buffer c = Some (T, v) \<and> type_id c = type_indexer T Args \<and> can_hold_type T Args)"

section \<open>The E2 agent of \<open>srsgnb/src/stack/ric/e2_agent.cc\<close>\<close>

subsection \<open>Messages\<close>

text \<open>
  The ASN.1 types of \<open>srsran/asn1/e2ap.h\<close> are not part of the sources. A PDU is modelled
  by its outer envelope and its procedure, with the fields the agent reads; identifiers
  are natural numbers. Every procedure the agent does not name is an \<open>other\<close> value
  carrying its procedure code.
\<close>

type_synonym byte_buffer = "8 word list"

record transaction_s =
  transaction_id :: nat

record e2setup_resp_s =
  setup_transaction_id :: nat
  global_ric_id :: nat

record ric_request_s =
  ric_requestor_id :: nat
  ric_instance_id :: nat
  ra_nfunction_id :: nat
  ric_action_ids :: "nat list"

datatype init_msg_c =
    Ricsubscription_request ric_request_s
  | Ricsubscription_delete_request ric_request_s
  | Ri_cctrl_request nat
  | E2conn_upd nat
  | Reset_request transaction_s
  | E2_removal_request nat
  | E2setup_request transaction_s
  | Init_msg_other nat

datatype successful_outcome_c =
    E2setup_resp e2setup_resp_s
  | Ricsubscription_resp ric_request_s
  | Ri_cctrl_ack nat
  | Ricservice_upd_ack nat
  | Ricsubscription_delete_resp ric_request_s
  | Reset_resp transaction_s
  | Successful_outcome_other nat

datatype unsuccessful_outcome_c =
    E2setup_fail transaction_s
  | E2node_cfg_upd_fail transaction_s
  | Ricservice_upd_fail transaction_s
  | E2_removal_fail transaction_s
  | Ricsubscription_fail ric_request_s
  | Ricsubscription_delete_fail ric_request_s
  | Unsuccessful_outcome_other nat

datatype e2_ap_pdu_c =
    Init_msg init_msg_c
  | Successful_outcome successful_outcome_c
  | Unsuccessful_outcome unsuccessful_outcome_c
  | Nulltype

datatype e2_msg_type_t = E2_SETUP_REQUEST | E2_RESET | E2_RESET_RESPONSE | E2_msg_type_other nat

subsection \<open>Collaborators\<close>

text \<open>
  The codec, the buffer pool and the socket are outside the sources; their outcomes are
  parameters. \<open>unpack\<close> and \<open>pack\<close> return \<open>None\<close> when the codec does not return
  \<open>SRSASN_SUCCESS\<close>. \<open>make_byte_buffer n\<close> tells whether the pool hands out a buffer and
  \<open>sctp_sendmsg n buf\<close> whether the socket takes the bytes (a return value other than
  \<open>-1\<close>), at the \<open>n\<close>-th send attempt of the agent. The four socket operations of
  \<open>init\<close> succeed or fail as the environment says. \<open>SRSRAN_SUCCESS\<close> is the macro of
  \<open>srsran/config.h\<close>. The class \<open>srsran::thread\<close> that runs the worker is outside the
  sources as well: \<open>join_not_running\<close> tells whether its \<open>wait_thread_finish\<close> returns
  when the worker is not running (never started, or joined before).
\<close>

record env_t =
  unpack :: "byte_buffer \<Rightarrow> e2_ap_pdu_c option"
  pack :: "e2_ap_pdu_c \<Rightarrow> byte_buffer option"
  make_byte_buffer :: "nat \<Rightarrow> bool"
  sctp_sendmsg :: "nat \<Rightarrow> byte_buffer \<Rightarrow> bool"
  open_socket :: bool
  sctp_subscribe_to_events :: bool
  bind_addr :: bool
  connect_to :: bool
  SRSRAN_SUCCESS :: int
  join_not_running :: bool

text \<open>
  The class \<open>e2ap\<close> of the member \<open>e2ap_\<close> (here the field \<open>e2ap\<close>) is outside the
  sources too. The agent is defined for any implementation of the methods it calls, over
  any state \<open>'e\<close>. A \<open>process_\<close> method returns its \<open>int\<close> result, the new state, and
  the PDUs it hands back to the agent through \<open>e2_agent::queue_send_e2ap_pdu\<close>, the one
  method of the agent that \<open>e2_agent.cc\<close> defines and never calls itself. \<open>timers_tic\<close>
  is what the timers of the shared \<open>task_sched\<close> do to the state on a tick.
\<close>

record 'e e2ap_t =
  send_setup_request :: "'e \<Rightarrow> bool"
  generate_setup_request :: "'e \<Rightarrow> e2_ap_pdu_c \<times> 'e"
  generate_reset_request :: "'e \<Rightarrow> e2_ap_pdu_c \<times> 'e"
  generate_reset_response :: "'e \<Rightarrow> e2_ap_pdu_c \<times> 'e"
  get_reset_id :: "'e \<Rightarrow> nat"
  process_setup_response :: "e2setup_resp_s \<Rightarrow> 'e \<Rightarrow> int \<times> 'e \<times> e2_ap_pdu_c list"
  process_e2_setup_failure :: "transaction_s \<Rightarrow> 'e \<Rightarrow> int \<times> 'e \<times> e2_ap_pdu_c list"
  process_e2_node_config_update_failure ::
    "transaction_s \<Rightarrow> 'e \<Rightarrow> int \<times> 'e \<times> e2_ap_pdu_c list"
  process_ric_service_update_failure ::
    "transaction_s \<Rightarrow> 'e \<Rightarrow> int \<times> 'e \<times> e2_ap_pdu_c list"
  process_e2_removal_failure :: "transaction_s \<Rightarrow> 'e \<Rightarrow> int \<times> 'e \<times> e2_ap_pdu_c list"
  process_subscription_request :: "ric_request_s \<Rightarrow> 'e \<Rightarrow> int \<times> 'e \<times> e2_ap_pdu_c list"
  process_subscription_delete_request ::
    "ric_request_s \<Rightarrow> 'e \<Rightarrow> int \<times> 'e \<times> e2_ap_pdu_c list"
  process_reset_request :: "transaction_s \<Rightarrow> 'e \<Rightarrow> int \<times> 'e \<times> e2_ap_pdu_c list"
  process_reset_response :: "transaction_s \<Rightarrow> 'e \<Rightarrow> int \<times> 'e \<times> e2_ap_pdu_c list"
  timers_tic :: "'e \<Rightarrow> 'e"

subsection \<open>Agent state\<close>

datatype log_level = Error | Warning | Info

type_synonym log_entry = "log_level \<times> string \<times> nat list"

datatype socket_state = Sock_closed | Sock_open | Sock_bound | Sock_connected

text \<open>
  The tasks on \<open>ric_rece_task_queue\<close> are the three closures of the file: the receive
  callback with its PDU, \<open>send_reset_resp\<close>, and \<open>send_e2ap_pdu_task\<close> with its PDU.
\<close>

datatype task = Rx_callback byte_buffer | Send_reset_resp | Send_e2ap_pdu_task e2_ap_pdu_c

text \<open>Where the worker thread that executes \<open>run_thread\<close> stands.\<close>

datatype thread_state = Not_started | At_while | At_run_next_task | Returned

text \<open>What became of a PDU handed to \<open>send_e2ap_pdu\<close>.\<close>

datatype tx_result = Sent byte_buffer | No_buffer | Pack_failed | Send_failed

text \<open>
  The members of \<open>e2_agent\<close> the file works on, and two traces: \<open>logger\<close> holds the
  entries written to the logger, \<open>outbound\<close> every PDU handed to \<open>send_e2ap_pdu\<close>
  with the outcome of the attempt. Output of \<open>printf\<close> is not modelled, and the
  final newline of a logged message is left out.
\<close>

record 'e e2_agent =
  running :: bool
  ric_socket :: socket_state
  ric_rece_task_queue :: "task list"
  e2ap :: 'e
  thread :: thread_state
  logger :: "log_entry list"
  outbound :: "(e2_ap_pdu_c \<times> tx_result) list"

definition log :: "log_level \<Rightarrow> string \<Rightarrow> nat list \<Rightarrow> 'e e2_agent \<Rightarrow> 'e e2_agent" where
  "log lvl msg args a = a\<lparr>logger := logger a @ [(lvl, msg, args)]\<rparr>"

definition e2_agent_ctor :: "'e \<Rightarrow> 'e e2_agent" where
  "e2_agent_ctor e =
     \<lparr>running = False, ric_socket = Sock_closed, ric_rece_task_queue = [], e2ap = e,
      thread = Not_started, logger = [], outbound = []\<rparr>"

subsection \<open>Start and stop\<close>

text \<open>
  \<open>e2_agent::init\<close>. The socket is closed again (\<open>ric_socket.close()\<close>) when
  subscribing or binding fails, and left as it is when connecting fails. On success the task queue is made, \<open>running\<close> is
  set and the thread is started; the value returned is \<open>SRSRAN_SUCCESS\<close> as a \<open>bool\<close>.
\<close>

definition init :: "env_t \<Rightarrow> 'e e2_agent \<Rightarrow> bool \<times> 'e e2_agent" where
  "init env a =
     (if \<not> open_socket env then (False, a)
      else if \<not> sctp_subscribe_to_events env then (False, a\<lparr>ric_socket := Sock_closed\<rparr>)
      else if \<not> bind_addr env then (False, a\<lparr>ric_socket := Sock_closed\<rparr>)
      else if \<not> connect_to env then (False, a\<lparr>ric_socket := Sock_bound\<rparr>)
      else (SRSRAN_SUCCESS env \<noteq> 0,
            a\<lparr>ric_socket := Sock_connected, ric_rece_task_queue := [], running := True,
              thread := At_while\<rparr>))"

subsection \<open>Sending\<close>

definition send_sctp :: "env_t \<Rightarrow> nat \<Rightarrow> byte_buffer \<Rightarrow> bool" where
  "send_sctp env n buf = sctp_sendmsg env n buf"

definition send_e2ap_pdu :: "env_t \<Rightarrow> e2_ap_pdu_c \<Rightarrow> 'e e2_agent \<Rightarrow> bool \<times> 'e e2_agent" where
  "send_e2ap_pdu env send_pdu a =
     (let n = length (outbound a) in
      if \<not> make_byte_buffer env n
      then (False, a\<lparr>outbound := outbound a @ [(send_pdu, No_buffer)]\<rparr>)
      else (case pack env send_pdu of
              None \<Rightarrow>
                (False, log Error ''Failed to pack TX E2 PDU'' []
                          (a\<lparr>outbound := outbound a @ [(send_pdu, Pack_failed)]\<rparr>))
            | Some buf \<Rightarrow>
                if \<not> send_sctp env n buf
                then (False, log Error ''failed to send'' []
                               (a\<lparr>outbound := outbound a @ [(send_pdu, Send_failed)]\<rparr>))
                else (True, a\<lparr>outbound := outbound a @ [(send_pdu, Sent buf)]\<rparr>)))"

definition send_e2_msg ::
  "env_t \<Rightarrow> 'e e2ap_t \<Rightarrow> e2_msg_type_t \<Rightarrow> 'e e2_agent \<Rightarrow> bool \<times> 'e e2_agent" where
  "send_e2_msg env E msg_type a =
     (case msg_type of
        E2_SETUP_REQUEST \<Rightarrow>
          (case generate_setup_request E (e2ap a) of
             (send_pdu, e) \<Rightarrow> send_e2ap_pdu env send_pdu (a\<lparr>e2ap := e\<rparr>))
      | E2_RESET \<Rightarrow>
          (case generate_reset_request E (e2ap a) of
             (send_pdu, e) \<Rightarrow> send_e2ap_pdu env send_pdu (a\<lparr>e2ap := e\<rparr>))
      | E2_RESET_RESPONSE \<Rightarrow>
          (case generate_reset_response E (e2ap a) of
             (send_pdu, e) \<Rightarrow> send_e2ap_pdu env send_pdu (a\<lparr>e2ap := e\<rparr>))
      | E2_msg_type_other n \<Rightarrow> (False, a))"

definition queue_send_e2ap_pdu :: "e2_ap_pdu_c \<Rightarrow> 'e e2_agent \<Rightarrow> bool \<times> 'e e2_agent" where
  "queue_send_e2ap_pdu e2ap_pdu a =
     (True, a\<lparr>ric_rece_task_queue := ric_rece_task_queue a @ [Send_e2ap_pdu_task e2ap_pdu]\<rparr>)"

text \<open>
  A call of a \<open>process_\<close> method of \<open>e2ap\<close>: the new state is stored, the PDUs the
  method hands back are queued in order, and the result says whether the method returned
  a value other than zero.
\<close>

definition e2ap_process ::
  "int \<times> 'e \<times> e2_ap_pdu_c list \<Rightarrow> 'e e2_agent \<Rightarrow> bool \<times> 'e e2_agent" where
  "e2ap_process r a =
     (case r of
        (ret, e, pdus) \<Rightarrow>
          (ret \<noteq> 0, foldl (\<lambda>b p. snd (queue_send_e2ap_pdu p b)) (a\<lparr>e2ap := e\<rparr>) pdus))"

subsection \<open>Procedure handlers\<close>

definition handle_ric_subscription_request ::
  "'e e2ap_t \<Rightarrow> ric_request_s \<Rightarrow> 'e e2_agent \<Rightarrow> bool \<times> 'e e2_agent" where
  "handle_ric_subscription_request E ric_subscription_request a =
     (let a1 = log Info
                 ''Received RIC Subscription Request from RIC ID: %i (instance id %i) to RAN Function ID: %i''
                 [ric_requestor_id ric_subscription_request,
                  ric_instance_id ric_subscription_request,
                  ra_nfunction_id ric_subscription_request] a
      in case e2ap_process (process_subscription_request E ric_subscription_request (e2ap a1)) a1 of
           (failed, a2) \<Rightarrow>
             if failed then (False, log Error ''Failed to process RIC subscription request '' [] a2)
             else (True, a2))"

definition handle_ric_subscription_delete_request ::
  "'e e2ap_t \<Rightarrow> ric_request_s \<Rightarrow> 'e e2_agent \<Rightarrow> bool \<times> 'e e2_agent" where
  "handle_ric_subscription_delete_request E ricsubscription_delete_request a =
     (let a1 = log Info
                 ''Received RIC Subscription Delete request from RIC ID: %i (instance id %i) to RAN Function ID: %i''
                 [ric_requestor_id ricsubscription_delete_request,
                  ric_instance_id ricsubscription_delete_request,
                  ra_nfunction_id ricsubscription_delete_request] a
      in case e2ap_process
                (process_subscription_delete_request E ricsubscription_delete_request (e2ap a1)) a1 of
           (failed, a2) \<Rightarrow>
             if failed
             then (False, log Error ''Failed to process RIC subscription delete request '' [] a2)
             else (True, a2))"

text \<open>
  \<open>handle_reset_request\<close>: when processing succeeds, the transaction is logged and the
  task \<open>send_reset_resp\<close> is pushed; when it fails, nothing is pushed.
\<close>

definition handle_reset_request ::
  "'e e2ap_t \<Rightarrow> transaction_s \<Rightarrow> 'e e2_agent \<Rightarrow> bool \<times> 'e e2_agent" where
  "handle_reset_request E reset_request a =
     (case e2ap_process (process_reset_request E reset_request (e2ap a)) a of
        (failed, a1) \<Rightarrow>
          if failed then (False, log Error ''Failed to process E2 Reset Request '' [] a1)
          else (let a2 = log Info ''Reset transaction with ID = {}''
                           [get_reset_id E (e2ap a1)] a1
                in (True, a2\<lparr>ric_rece_task_queue :=
                               ric_rece_task_queue a2 @ [Send_reset_resp]\<rparr>)))"

definition handle_reset_response ::
  "'e e2ap_t \<Rightarrow> transaction_s \<Rightarrow> 'e e2_agent \<Rightarrow> bool \<times> 'e e2_agent" where
  "handle_reset_response E reset_response a =
     (case e2ap_process (process_reset_response E reset_response (e2ap a)) a of
        (failed, a1) \<Rightarrow>
          if failed then (False, log Error ''Failed to process E2 Reset Response '' [] a1)
          else (True, log Info ''Reset Response successfully processed '' [] a1))"

definition handle_e2_setup_response ::
  "'e e2ap_t \<Rightarrow> e2setup_resp_s \<Rightarrow> 'e e2_agent \<Rightarrow> bool \<times> 'e e2_agent" where
  "handle_e2_setup_response E setup_response a =
     (case e2ap_process (process_setup_response E setup_response (e2ap a)) a of
        (failed, a1) \<Rightarrow>
          if failed then (False, log Error ''Failed to process E2 Setup Response '' [] a1)
          else (True, a1))"

subsection \<open>Dispatch\<close>

definition handle_e2_init_msg ::
  "'e e2ap_t \<Rightarrow> init_msg_c \<Rightarrow> 'e e2_agent \<Rightarrow> bool \<times> 'e e2_agent" where
  "handle_e2_init_msg E init_msg a =
     (case init_msg of
        Ricsubscription_request r \<Rightarrow>
          (True, snd (handle_ric_subscription_request E r
                        (log Info ''Received E2AP RIC Subscription Request'' [] a)))
      | Ricsubscription_delete_request r \<Rightarrow>
          (True, snd (handle_ric_subscription_delete_request E r
                        (log Info ''Received E2AP RIC Subscription Delete Request'' [] a)))
      | Ri_cctrl_request c \<Rightarrow> (True, log Info ''Received E2AP RIC Control Request'' [] a)
      | E2conn_upd c \<Rightarrow> (True, log Info ''Received E2AP E2 Connection Update'' [] a)
      | Reset_request r \<Rightarrow>
          (True, snd (handle_reset_request E r
                        (log Info ''Received E2AP E2 Reset Request'' [] a)))
      | E2_removal_request c \<Rightarrow> (True, log Info ''Received E2AP E2 Removal Request'' [] a)
      | E2setup_request r \<Rightarrow> (True, log Warning ''Received E2AP Unknown Init Message '' [] a)
      | Init_msg_other c \<Rightarrow> (True, log Warning ''Received E2AP Unknown Init Message '' [] a))"

definition handle_e2_successful_outcome ::
  "'e e2ap_t \<Rightarrow> successful_outcome_c \<Rightarrow> 'e e2_agent \<Rightarrow> bool \<times> 'e e2_agent" where
  "handle_e2_successful_outcome E successful_outcome a =
     (case successful_outcome of
        E2setup_resp r \<Rightarrow>
          (True, snd (handle_e2_setup_response E r
                        (log Info ''Received E2AP E2 Setup Response'' [] a)))
      | Ricsubscription_resp r \<Rightarrow>
          (True, log Info ''Received E2AP RIC Subscription Response'' [] a)
      | Ri_cctrl_ack c \<Rightarrow> (True, log Info ''Received E2AP RIC Control acknowlegement  '' [] a)
      | Ricservice_upd_ack c \<Rightarrow>
          (True, log Info ''Received E2AP RIC Service Update acknowlegement '' [] a)
      | Ricsubscription_delete_resp r \<Rightarrow>
          (True, log Info ''Received E2AP RIC Subscription Delete Response '' [] a)
      | Reset_resp r \<Rightarrow>
          (True, snd (handle_reset_response E r
                        (log Info ''Received E2AP RIC Reset Response '' [] a)))
      | Successful_outcome_other c \<Rightarrow>
          (True, log Info ''Received E2AP Unknown Successful Outcome '' [] a))"

text \<open>
  One branch of \<open>handle_e2_unsuccessful_outcome\<close>: log the kind, call the \<open>process_\<close>
  method, and on a result other than zero log the error and return \<open>false\<close>.
\<close>

definition unsuccessful_branch ::
  "string \<Rightarrow> string \<Rightarrow> ('e \<Rightarrow> int \<times> 'e \<times> e2_ap_pdu_c list) \<Rightarrow> 'e e2_agent \<Rightarrow> bool \<times> 'e e2_agent"
  where
  "unsuccessful_branch info err process a =
     (let a1 = log Info info [] a
      in case e2ap_process (process (e2ap a1)) a1 of
           (failed, a2) \<Rightarrow> if failed then (False, log Error err [] a2) else (True, a2))"

definition handle_e2_unsuccessful_outcome ::
  "'e e2ap_t \<Rightarrow> unsuccessful_outcome_c \<Rightarrow> 'e e2_agent \<Rightarrow> bool \<times> 'e e2_agent" where
  "handle_e2_unsuccessful_outcome E unsuccessful_outcome a =
     (case unsuccessful_outcome of
        E2setup_fail f \<Rightarrow>
          unsuccessful_branch ''Received E2AP E2 Setup Failure''
            ''Failed to process E2 Setup Failure '' (process_e2_setup_failure E f) a
      | E2node_cfg_upd_fail f \<Rightarrow>
          unsuccessful_branch ''Received E2node configuration update Failure''
            ''Failed to process E2node configuration update Failure ''
            (process_e2_node_config_update_failure E f) a
      | Ricservice_upd_fail f \<Rightarrow>
          unsuccessful_branch ''Received E2AP RIC Service Update Failure ''
            ''Failed to process RIC service update failure ''
            (process_ric_service_update_failure E f) a
      | E2_removal_fail f \<Rightarrow>
          unsuccessful_branch ''Received E2AP removal Unsuccessful Outcome ''
            ''Failed to process RIC service status failure ''
            (process_e2_removal_failure E f) a
      | Ricsubscription_fail r \<Rightarrow>
          (True, log Info ''Received E2AP Unknown Unsuccessful Outcome '' [] a)
      | Ricsubscription_delete_fail r \<Rightarrow>
          (True, log Info ''Received E2AP Unknown Unsuccessful Outcome '' [] a)
      | Unsuccessful_outcome_other c \<Rightarrow>
          (True, log Info ''Received E2AP Unknown Unsuccessful Outcome '' [] a))"

text \<open>
  \<open>handle_e2_rx_msg\<close>: bytes that do not unpack are logged and the handler returns
  \<open>false\<close>; a PDU is dispatched on its envelope and the handler returns \<open>true\<close>, whatever
  the handler of the envelope returned.
\<close>

definition handle_e2_rx_msg ::
  "env_t \<Rightarrow> 'e e2ap_t \<Rightarrow> byte_buffer \<Rightarrow> 'e e2_agent \<Rightarrow> bool \<times> 'e e2_agent" where
  "handle_e2_rx_msg env E pdu a =
     (case unpack env pdu of
        None \<Rightarrow> (False, log Error ''Failed to unpack RX E2 PDU'' [] a)
      | Some pdu_c \<Rightarrow>
          (case pdu_c of
             Init_msg m \<Rightarrow>
               (True, snd (handle_e2_init_msg E m (log Info ''Received E2AP Init Message'' [] a)))
           | Successful_outcome m \<Rightarrow>
               (True, snd (handle_e2_successful_outcome E m
                             (log Info ''Received E2AP Successful Outcome'' [] a)))
           | Unsuccessful_outcome m \<Rightarrow>
               (True, snd (handle_e2_unsuccessful_outcome E m
                             (log Info ''Received E2AP Unsuccessful Outcome '' [] a)))
           | Nulltype \<Rightarrow> (True, log Warning ''Received E2AP Unknown Message '' [] a)))"

subsection \<open>The worker thread\<close>

definition run_task :: "env_t \<Rightarrow> 'e e2ap_t \<Rightarrow> task \<Rightarrow> 'e e2_agent \<Rightarrow> 'e e2_agent" where
  "run_task env E t a =
     (case t of
        Rx_callback pdu \<Rightarrow> snd (handle_e2_rx_msg env E pdu a)
      | Send_reset_resp \<Rightarrow> snd (send_e2_msg env E E2_RESET_RESPONSE a)
      | Send_e2ap_pdu_task p \<Rightarrow> snd (send_e2ap_pdu env p a))"

text \<open>
  \<open>task_sched.run_next_task()\<close> removes the oldest queued task and executes it; with an
  empty queue it waits, which is \<open>None\<close>.
\<close>

definition run_next_task :: "env_t \<Rightarrow> 'e e2ap_t \<Rightarrow> 'e e2_agent \<Rightarrow> 'e e2_agent option" where
  "run_next_task env E a =
     (case ric_rece_task_queue a of
        [] \<Rightarrow> None
      | t # q \<Rightarrow> Some (run_task env E t (a\<lparr>ric_rece_task_queue := q\<rparr>)))"

text \<open>The first statement of the loop body of \<open>run_thread\<close>.\<close>

definition setup_if_needed :: "env_t \<Rightarrow> 'e e2ap_t \<Rightarrow> 'e e2_agent \<Rightarrow> 'e e2_agent" where
  "setup_if_needed env E a =
     (if send_setup_request E (e2ap a) then snd (send_e2_msg env E E2_SETUP_REQUEST a) else a)"

text \<open>
  \<open>e2_agent::run_thread\<close>, on its own: \<open>None\<close> when the loop waits for a task for ever
  or never ends.
\<close>

partial_function (option) run_thread ::
  "env_t \<Rightarrow> 'e e2ap_t \<Rightarrow> 'e e2_agent \<Rightarrow> 'e e2_agent option" where
  "run_thread env E a =
     (if running a
      then (case run_next_task env E (setup_if_needed env E a) of
              None \<Rightarrow> None
            | Some a' \<Rightarrow> run_thread env E a')
      else Some a)"

text \<open>
  The same loop in steps, for the executions in which the receive thread, the tick and
  \<open>stop\<close> act between the statements of the worker: \<open>run_thread_head\<close> is the loop test
  with the first statement of the body.
\<close>

definition run_thread_head :: "env_t \<Rightarrow> 'e e2ap_t \<Rightarrow> 'e e2_agent \<Rightarrow> 'e e2_agent" where
  "run_thread_head env E a =
     (if running a then (setup_if_needed env E a)\<lparr>thread := At_run_next_task\<rparr>
      else a\<lparr>thread := Returned\<rparr>)"

text \<open>
  \<open>e2_agent::tic\<close> is \<open>task_sched.tic()\<close>: as its comment says, the tick advances the
  timers. Queued tasks are left to the worker.
\<close>

definition tic :: "'e e2ap_t \<Rightarrow> 'e e2_agent \<Rightarrow> 'e e2_agent" where
  "tic E a = a\<lparr>e2ap := timers_tic E (e2ap a)\<rparr>"

text \<open>
  The socket handler that \<open>init\<close> registers pushes the receive callback with each PDU
  that arrives.
\<close>

definition received :: "byte_buffer list \<Rightarrow> 'e e2_agent \<Rightarrow> 'e e2_agent" where
  "received pdus a = a\<lparr>ric_rece_task_queue := ric_rece_task_queue a @ map Rx_callback pdus\<rparr>"

text \<open>
  Modelled from the spec: \<open>srsran::thread::wait_thread_finish\<close>, the join of the worker,
  which is outside the sources. Stopping is deterministic and waits for the worker: the
  call returns when \<open>run_thread\<close> has returned, after the worker has run on from where it
  stands. \<open>later\<close> are the PDUs that the socket handler queues while the call waits. A
  worker that waits for a task, with none queued and none arriving, never returns, which
  is \<open>None\<close>. What the join of a worker that is not running does is not assumed: the
  call returns when \<open>join_not_running\<close> of the environment says so, and never
  otherwise.
\<close>

definition wait_thread_finish ::
  "env_t \<Rightarrow> 'e e2ap_t \<Rightarrow> byte_buffer list \<Rightarrow> 'e e2_agent \<Rightarrow> 'e e2_agent option" where
  "wait_thread_finish env E later a =
     (case thread a of
        Not_started \<Rightarrow> if join_not_running env then Some a else None
      | Returned \<Rightarrow> if join_not_running env then Some a else None
      | At_while \<Rightarrow>
          map_option (\<lambda>b. b\<lparr>thread := Returned\<rparr>) (run_thread env E (received later a))
      | At_run_next_task \<Rightarrow>
          (case run_next_task env E (received later a) of
             None \<Rightarrow> None
           | Some a' \<Rightarrow> map_option (\<lambda>b. b\<lparr>thread := Returned\<rparr>) (run_thread env E a')))"

text \<open>
  \<open>e2_agent::stop\<close>: the flag is cleared, then the worker is joined. \<open>later\<close> are the
  PDUs received while \<open>stop\<close> waits.
\<close>

definition stop ::
  "env_t \<Rightarrow> 'e e2ap_t \<Rightarrow> byte_buffer list \<Rightarrow> 'e e2_agent \<Rightarrow> 'e e2_agent option" where
  "stop env E later a = wait_thread_finish env E later (a\<lparr>running := False\<rparr>)"

text \<open>
  One step of the running agent: the socket handler queues a received PDU, the tick
  advances the timers, \<open>stop\<close> clears \<open>running\<close>, or the worker executes the loop test
  or the next task.
\<close>

inductive agent_step :: "env_t \<Rightarrow> 'e e2ap_t \<Rightarrow> 'e e2_agent \<Rightarrow> 'e e2_agent \<Rightarrow> bool"
  for env :: env_t and E :: "'e e2ap_t" where
  rx: "thread a \<noteq> Not_started \<Longrightarrow>
       agent_step env E a (a\<lparr>ric_rece_task_queue := ric_rece_task_queue a @ [Rx_callback pdu]\<rparr>)"
| tick: "agent_step env E a (tic E a)"
| stopping: "agent_step env E a (a\<lparr>running := False\<rparr>)"
| head: "thread a = At_while \<Longrightarrow> agent_step env E a (run_thread_head env E a)"
| next_task: "thread a = At_run_next_task \<Longrightarrow> run_next_task env E a = Some a' \<Longrightarrow>
       agent_step env E a (a'\<lparr>thread := At_while\<rparr>)"

inductive reachable :: "env_t \<Rightarrow> 'e e2ap_t \<Rightarrow> 'e e2_agent \<Rightarrow> 'e e2_agent \<Rightarrow> bool"
  for env :: env_t and E :: "'e e2ap_t" and a0 :: "'e e2_agent" where
  start: "reachable env E a0 a0"
| step: "reachable env E a0 a \<Longrightarrow> agent_step env E a a' \<Longrightarrow> reachable env E a0 a'"

section \<open>The E2AP procedures, from the specification\<close>

text \<open>
  Modelled from the spec: the state of the class \<open>e2ap\<close>, which decides when a Setup
  Request is due and what a request does to the session. It is the part of the Session
  that the agent does not hold itself: the progress of the setup, the Pending Procedures
  (kind, correlation key, creation time, expiry deadline), the Subscription Records
  (requestor, instance and function identifier, granted actions), the identifiers, and
  the virtual clock of the timers.
\<close>

datatype procedure_kind =
  Setup_procedure | Reset_procedure | Node_config_update_procedure | Service_update_procedure |
  Removal_procedure

record pending_procedure =
  kind :: procedure_kind
  correlation_key :: nat
  created :: nat
  deadline :: nat

record subscription_record =
  requestor_id :: nat
  instance_id :: nat
  function_id :: nat
  granted_actions :: "nat list"

datatype setup_progress = No_setup | Awaiting_setup_response | Setup_complete

record session =
  setup_state :: setup_progress
  pending :: "pending_procedure list"
  subscriptions :: "subscription_record list"
  assigned_id :: "nat option"
  reset_id :: nat
  next_transaction_id :: nat
  clock :: nat
  retry_at :: nat
  procedure_timeout :: nat
  retry_backoff :: nat

text \<open>
  Modelled from the spec: the constructor of \<open>e2ap\<close>. A session is created with no
  setup, no Pending Procedure and no Subscription Record; the timeout of a procedure and
  the backoff before a retry are implementation-defined.
\<close>

definition e2ap_ctor :: "nat \<Rightarrow> nat \<Rightarrow> session" where
  "e2ap_ctor timeout backoff =
     \<lparr>setup_state = No_setup, pending = [], subscriptions = [], assigned_id = None, reset_id = 0,
      next_transaction_id = 0, clock = 0, retry_at = 0, procedure_timeout = timeout,
      retry_backoff = backoff\<rparr>"

text \<open>
  Modelled from the spec: the Pending Procedure set. A response is correlated with the
  pending procedure of its kind and key; a procedure is registered with the next
  transaction identifier as its key and leaves the set when it is removed.
\<close>

definition pending_of :: "procedure_kind \<Rightarrow> session \<Rightarrow> pending_procedure list" where
  "pending_of k s = filter (\<lambda>p. kind p = k) (pending s)"

definition correlates :: "procedure_kind \<Rightarrow> nat \<Rightarrow> session \<Rightarrow> bool" where
  "correlates k key s = (filter (\<lambda>p. correlation_key p = key) (pending_of k s) \<noteq> [])"

definition remove_pending :: "procedure_kind \<Rightarrow> nat \<Rightarrow> session \<Rightarrow> session" where
  "remove_pending k key s =
     s\<lparr>pending := filter (\<lambda>p. \<not> (kind p = k \<and> correlation_key p = key)) (pending s)\<rparr>"

definition register_pending :: "procedure_kind \<Rightarrow> session \<Rightarrow> session" where
  "register_pending k s =
     s\<lparr>pending := pending s @
          [\<lparr>kind = k, correlation_key = next_transaction_id s, created = clock s,
            deadline = clock s + procedure_timeout s\<rparr>],
       next_transaction_id := next_transaction_id s + 1\<rparr>"

text \<open>
  Modelled from the spec: \<open>e2ap::send_setup_request\<close>. A Setup Request is due when there
  is no active session, no Setup procedure is pending (a second attempt while one is
  pending is rejected) and the backoff of a retry has passed.
\<close>

definition spec_send_setup_request :: "session \<Rightarrow> bool" where
  "spec_send_setup_request s =
     (setup_state s = No_setup \<and> pending_of Setup_procedure s = [] \<and> retry_at s \<le> clock s)"

text \<open>
  Modelled from the spec: \<open>e2ap::generate_setup_request\<close>. Emitting a Setup Request
  registers a Pending Procedure with an expiry deadline and the session awaits the
  response.
\<close>

definition spec_generate_setup_request :: "session \<Rightarrow> e2_ap_pdu_c \<times> session" where
  "spec_generate_setup_request s =
     (Init_msg (E2setup_request \<lparr>transaction_id = next_transaction_id s\<rparr>),
      (register_pending Setup_procedure s)\<lparr>setup_state := Awaiting_setup_response\<rparr>)"

text \<open>
  Modelled from the spec: \<open>e2ap::generate_reset_request\<close> and
  \<open>e2ap::generate_reset_response\<close>. A reset of the agent's own is a Pending Procedure;
  the acknowledgment of a peer's reset carries the transaction of the request.
\<close>

definition spec_generate_reset_request :: "session \<Rightarrow> e2_ap_pdu_c \<times> session" where
  "spec_generate_reset_request s =
     (Init_msg (Reset_request \<lparr>transaction_id = next_transaction_id s\<rparr>),
      register_pending Reset_procedure s)"

definition spec_generate_reset_response :: "session \<Rightarrow> e2_ap_pdu_c \<times> session" where
  "spec_generate_reset_response s =
     (Successful_outcome (Reset_resp \<lparr>transaction_id = reset_id s\<rparr>), s)"

text \<open>
  Modelled from the spec: \<open>e2ap::process_setup_response\<close>. A Setup Success that matches
  the pending Setup procedure clears it, records the peer-assigned identifier and
  establishes the session; one that matches none is stale and changes nothing.
\<close>

definition spec_process_setup_response ::
  "e2setup_resp_s \<Rightarrow> session \<Rightarrow> int \<times> session \<times> e2_ap_pdu_c list" where
  "spec_process_setup_response r s =
     (if correlates Setup_procedure (setup_transaction_id r) s
      then (0, (remove_pending Setup_procedure (setup_transaction_id r) s)
                 \<lparr>setup_state := Setup_complete, assigned_id := Some (global_ric_id r)\<rparr>, [])
      else (- 1, s, []))"

text \<open>
  Modelled from the spec: \<open>e2ap::process_e2_setup_failure\<close>. A matching Setup Failure
  clears the pending state and schedules a retry after the backoff.
\<close>

definition spec_process_e2_setup_failure ::
  "transaction_s \<Rightarrow> session \<Rightarrow> int \<times> session \<times> e2_ap_pdu_c list" where
  "spec_process_e2_setup_failure f s =
     (if correlates Setup_procedure (transaction_id f) s
      then (0, (remove_pending Setup_procedure (transaction_id f) s)
                 \<lparr>setup_state := No_setup, retry_at := clock s + retry_backoff s\<rparr>, [])
      else (- 1, s, []))"

text \<open>
  Modelled from the spec: the other \<open>process_\<close> methods for outcomes
  (\<open>process_e2_node_config_update_failure\<close>, \<open>process_ric_service_update_failure\<close>,
  \<open>process_e2_removal_failure\<close>, \<open>process_reset_response\<close>). An outcome that matches a
  Pending Procedure removes it; one that matches none is stale and changes nothing.
\<close>

definition spec_process_outcome ::
  "procedure_kind \<Rightarrow> transaction_s \<Rightarrow> session \<Rightarrow> int \<times> session \<times> e2_ap_pdu_c list" where
  "spec_process_outcome k f s =
     (if correlates k (transaction_id f) s
      then (0, remove_pending k (transaction_id f) s, [])
      else (- 1, s, []))"

text \<open>
  Modelled from the spec: \<open>e2ap::process_reset_request\<close>. A reset clears all
  Subscription Records and Pending Procedures of the session and keeps the transaction
  for the acknowledgment, which the agent sends.
\<close>

definition spec_process_reset_request ::
  "transaction_s \<Rightarrow> session \<Rightarrow> int \<times> session \<times> e2_ap_pdu_c list" where
  "spec_process_reset_request r s =
     (0, s\<lparr>subscriptions := [], pending := [], reset_id := transaction_id r\<rparr>, [])"

text \<open>
  Modelled from the spec: the key of a Subscription Record is the pair of requestor and
  instance identifier.
\<close>

definition same_subscription :: "ric_request_s \<Rightarrow> subscription_record \<Rightarrow> bool" where
  "same_subscription r rec =
     (requestor_id rec = ric_requestor_id r \<and> instance_id rec = ric_instance_id r)"

text \<open>
  Modelled from the spec: \<open>e2ap::process_subscription_request\<close>. In an established
  session the Subscription Record keyed by requestor and instance identifier is created
  or updated and the request is granted; otherwise it is refused. A reply is made either
  way.
\<close>

definition spec_process_subscription_request ::
  "ric_request_s \<Rightarrow> session \<Rightarrow> int \<times> session \<times> e2_ap_pdu_c list" where
  "spec_process_subscription_request r s =
     (if setup_state s = Setup_complete
      then (0,
            s\<lparr>subscriptions :=
                 filter (\<lambda>rec. \<not> same_subscription r rec) (subscriptions s) @
                 [\<lparr>requestor_id = ric_requestor_id r, instance_id = ric_instance_id r,
                   function_id = ra_nfunction_id r, granted_actions = ric_action_ids r\<rparr>]\<rparr>,
            [Successful_outcome (Ricsubscription_resp r)])
      else (0, s, [Unsuccessful_outcome (Ricsubscription_fail r)]))"

text \<open>
  Modelled from the spec: \<open>e2ap::process_subscription_delete_request\<close>. Deleting
  destroys the Subscription Record; a request for a record that does not exist is
  refused.
\<close>

definition spec_process_subscription_delete_request ::
  "ric_request_s \<Rightarrow> session \<Rightarrow> int \<times> session \<times> e2_ap_pdu_c list" where
  "spec_process_subscription_delete_request r s =
     (if filter (same_subscription r) (subscriptions s) \<noteq> []
      then (0, s\<lparr>subscriptions := filter (\<lambda>rec. \<not> same_subscription r rec) (subscriptions s)\<rparr>,
            [Successful_outcome (Ricsubscription_delete_resp r)])
      else (0, s, [Unsuccessful_outcome (Ricsubscription_delete_fail r)]))"

text \<open>
  Modelled from the spec: the timers of \<open>e2ap\<close> on \<open>task_sched.tic()\<close>. A tick advances
  the clock by one unit and removes every Pending Procedure whose deadline has elapsed;
  the expiry of the Setup procedure is a setup failure.
\<close>

definition spec_timers_tic :: "session \<Rightarrow> session" where
  "spec_timers_tic s =
     (let now = clock s + 1;
          expired = filter (\<lambda>p. deadline p \<le> now) (pending s);
          s1 = s\<lparr>clock := now, pending := filter (\<lambda>p. \<not> deadline p \<le> now) (pending s)\<rparr>
      in if filter (\<lambda>p. kind p = Setup_procedure) expired \<noteq> []
         then s1\<lparr>setup_state := No_setup, retry_at := now + retry_backoff s\<rparr>
         else s1)"

text \<open>Modelled from the spec: the class \<open>e2ap\<close>, as the methods above.\<close>

definition spec_e2ap :: "session e2ap_t" where
  "spec_e2ap =
     \<lparr>send_setup_request = spec_send_setup_request,
      generate_setup_request = spec_generate_setup_request,
      generate_reset_request = spec_generate_reset_request,
      generate_reset_response = spec_generate_reset_response,
      get_reset_id = reset_id,
      process_setup_response = spec_process_setup_response,
      process_e2_setup_failure = spec_process_e2_setup_failure,
      process_e2_node_config_update_failure = spec_process_outcome Node_config_update_procedure,
      process_ric_service_update_failure = spec_process_outcome Service_update_procedure,
      process_e2_removal_failure = spec_process_outcome Removal_procedure,
      process_subscription_request = spec_process_subscription_request,
      process_subscription_delete_request = spec_process_subscription_delete_request,
      process_reset_request = spec_process_reset_request,
      process_reset_response = spec_process_outcome Reset_procedure,
      timers_tic = spec_timers_tic\<rparr>"

definition is_setup_request :: "e2_ap_pdu_c \<Rightarrow> bool" where
  "is_setup_request p = (case p of Init_msg (E2setup_request r) \<Rightarrow> True | _ \<Rightarrow> False)"

definition is_reset_response :: "e2_ap_pdu_c \<Rightarrow> bool" where
  "is_reset_response p = (case p of Successful_outcome (Reset_resp r) \<Rightarrow> True | _ \<Rightarrow> False)"

text \<open>The PDUs handed to \<open>send_e2ap_pdu\<close> so far, in order.\<close>

definition outbound_pdus :: "'e e2_agent \<Rightarrow> e2_ap_pdu_c list" where
  "outbound_pdus a = map fst (outbound a)"

section \<open>Notions for the properties\<close>

text \<open>
  \<open>untouched a b\<close>: from \<open>a\<close> to \<open>b\<close> the agent keeps running as it was, the socket
  and the worker are where they were, and nothing was handed to \<open>send_e2ap_pdu\<close>.
\<close>

definition untouched :: "'e e2_agent \<Rightarrow> 'e e2_agent \<Rightarrow> bool" where
  "untouched a b =
     (running b = running a \<and> ric_socket b = ric_socket a \<and> thread b = thread a \<and>
      outbound b = outbound a)"

text \<open>\<open>only_logged a b\<close>: \<open>b\<close> is \<open>a\<close> with more log entries and no other change.\<close>

definition only_logged :: "'e e2_agent \<Rightarrow> 'e e2_agent \<Rightarrow> bool" where
  "only_logged a b = (b\<lparr>logger := logger a\<rparr> = a \<and> length (logger a) < length (logger b))"

text \<open>
  The PDUs that left on the socket are the attempts of \<open>send_e2ap_pdu\<close> that ended in
  \<open>Sent\<close>. \<open>goes_out env n p\<close>: the \<open>n\<close>-th attempt, with the PDU \<open>p\<close>, gets a
  buffer, packs, and the socket takes the bytes.
\<close>

definition is_sent :: "tx_result \<Rightarrow> bool" where
  "is_sent res = (case res of Sent buf \<Rightarrow> True | _ \<Rightarrow> False)"

definition transmitted :: "'e e2_agent \<Rightarrow> e2_ap_pdu_c list" where
  "transmitted a = map fst (filter (\<lambda>x. is_sent (snd x)) (outbound a))"





text \<open>
  The dispatch table in the words of the specification: the envelope of a PDU and its
  procedure select the procedure of \<open>e2ap\<close> that handles it; every other PDU has none.
\<close>

definition matching_procedure ::
  "'e e2ap_t \<Rightarrow> e2_ap_pdu_c \<Rightarrow> ('e \<Rightarrow> int \<times> 'e \<times> e2_ap_pdu_c list) option" where
  "matching_procedure E pdu_c =
     (case pdu_c of
        Init_msg (Ricsubscription_request r) \<Rightarrow> Some (process_subscription_request E r)
      | Init_msg (Ricsubscription_delete_request r) \<Rightarrow>
          Some (process_subscription_delete_request E r)
      | Init_msg (Reset_request r) \<Rightarrow> Some (process_reset_request E r)
      | Successful_outcome (E2setup_resp r) \<Rightarrow> Some (process_setup_response E r)
      | Successful_outcome (Reset_resp r) \<Rightarrow> Some (process_reset_response E r)
      | Unsuccessful_outcome (E2setup_fail f) \<Rightarrow> Some (process_e2_setup_failure E f)
      | Unsuccessful_outcome (E2node_cfg_upd_fail f) \<Rightarrow>
          Some (process_e2_node_config_update_failure E f)
      | Unsuccessful_outcome (Ricservice_upd_fail f) \<Rightarrow>
          Some (process_ric_service_update_failure E f)
      | Unsuccessful_outcome (E2_removal_fail f) \<Rightarrow> Some (process_e2_removal_failure E f)
      | _ \<Rightarrow> None)"

definition is_reset_request :: "e2_ap_pdu_c \<Rightarrow> bool" where
  "is_reset_request p = (case p of Init_msg (Reset_request r) \<Rightarrow> True | _ \<Rightarrow> False)"

text \<open>
  What the table says a dispatched PDU does to the E2AP state and to the task queue: the
  state is the one the procedure returns; the tasks are the sends the procedure asked
  for and, for a Reset Request whose procedure returned zero, \<open>send_reset_resp\<close>.
\<close>

definition dispatched_state :: "'e e2ap_t \<Rightarrow> e2_ap_pdu_c \<Rightarrow> 'e \<Rightarrow> 'e" where
  "dispatched_state E pdu_c e =
     (case matching_procedure E pdu_c of None \<Rightarrow> e | Some f \<Rightarrow> fst (snd (f e)))"

definition dispatched_tasks :: "'e e2ap_t \<Rightarrow> e2_ap_pdu_c \<Rightarrow> 'e \<Rightarrow> task list" where
  "dispatched_tasks E pdu_c e =
     (case matching_procedure E pdu_c of
        None \<Rightarrow> []
      | Some f \<Rightarrow>
          map Send_e2ap_pdu_task (snd (snd (f e))) @
          (if is_reset_request pdu_c \<and> fst (f e) = 0 then [Send_reset_resp] else []))"

text \<open>The PDUs a task hands to \<open>send_e2ap_pdu\<close>, for the procedures of the specification.\<close>

definition sent_by :: "task \<Rightarrow> session \<Rightarrow> e2_ap_pdu_c list" where
  "sent_by t s =
     (case t of
        Rx_callback pdu \<Rightarrow> []
      | Send_reset_resp \<Rightarrow> [Successful_outcome (Reset_resp \<lparr>transaction_id = reset_id s\<rparr>)]
      | Send_e2ap_pdu_task p \<Rightarrow> [p])"

text \<open>The invariant of the running agent, for the procedures of the specification.\<close>

definition sub_pending :: "session \<Rightarrow> session \<Rightarrow> bool" where
  "sub_pending s s' = (\<exists>P. pending s' = filter P (pending s))"

definition good_task :: "task \<Rightarrow> bool" where
  "good_task t =
     (case t of
        Send_e2ap_pdu_task p \<Rightarrow> \<not> is_setup_request p \<and> \<not> is_reset_response p
      | _ \<Rightarrow> True)"

definition first_is_setup_request :: "session e2_agent \<Rightarrow> bool" where
  "first_is_setup_request a =
     (if outbound_pdus a = []
      then thread a \<noteq> At_run_next_task \<and> spec_send_setup_request (e2ap a)
      else is_setup_request (hd (outbound_pdus a)))"

definition agent_inv :: "session e2_agent \<Rightarrow> bool" where
  "agent_inv a =
     (length (pending_of Setup_procedure (e2ap a)) \<le> 1 \<and> first_is_setup_request a \<and>
      list_all good_task (ric_rece_task_queue a))"

subsection \<open>Examples\<close>

text \<open>
  A small codec and an environment in which every operation succeeds: the first byte of
  a PDU selects a Reset Request, a RIC Control Request, a Subscription Request or a Setup
  Response. The agent is started, sends its Setup Request (\<open>awaiting_agent\<close>), and
  receives and handles the Setup Response that assigns identifier 7
  (\<open>established_agent\<close>).
\<close>

definition example_unpack :: "byte_buffer \<Rightarrow> e2_ap_pdu_c option" where
  "example_unpack b =
     (case b of
        [] \<Rightarrow> None
      | x # xs \<Rightarrow>
          if x = 1 then Some (Init_msg (Reset_request \<lparr>transaction_id = length xs\<rparr>))
          else if x = 2 then Some (Init_msg (Ri_cctrl_request (length xs)))
          else if x = 3
          then Some (Init_msg (Ricsubscription_request
                 \<lparr>ric_requestor_id = 3, ric_instance_id = 1, ra_nfunction_id = 147,
                  ric_action_ids = map unat xs\<rparr>))
          else if x = 4
          then Some (Successful_outcome (E2setup_resp
                 \<lparr>setup_transaction_id = 0, global_ric_id = length xs\<rparr>))
          else None)"

definition env_ok :: env_t where
  "env_ok =
     \<lparr>unpack = example_unpack, pack = (\<lambda>p. Some [0]), make_byte_buffer = (\<lambda>n. True),
      sctp_sendmsg = (\<lambda>n b. True), open_socket = True, sctp_subscribe_to_events = True,
      bind_addr = True, connect_to = True, SRSRAN_SUCCESS = 0, join_not_running = True\<rparr>"

text \<open>The same environment with a thread class that joins a worker only once.\<close>

definition env_no_second_join :: env_t where
  "env_no_second_join = env_ok\<lparr>join_not_running := False\<rparr>"

definition fresh_agent :: "session e2_agent" where
  "fresh_agent = e2_agent_ctor (e2ap_ctor 5 3)"

definition started_agent :: "session e2_agent" where
  "started_agent = snd (init env_ok fresh_agent)"

definition awaiting_agent :: "session e2_agent" where
  "awaiting_agent = run_thread_head env_ok spec_e2ap started_agent"

definition setup_response_7 :: byte_buffer where
  "setup_response_7 = [4, 0, 0, 0, 0, 0, 0, 0]"

definition response_queued_agent :: "session e2_agent" where
  "response_queued_agent =
     awaiting_agent\<lparr>ric_rece_task_queue :=
       ric_rece_task_queue awaiting_agent @ [Rx_callback setup_response_7]\<rparr>"

definition established_agent :: "session e2_agent" where
  "established_agent =
     (run_task env_ok spec_e2ap (Rx_callback setup_response_7)
        (response_queued_agent\<lparr>ric_rece_task_queue := []\<rparr>))\<lparr>thread := At_while\<rparr>"









definition A_or_B :: "cpp_type list" where
  "A_or_B = [Class ''A'', Class ''B'']"

section \<open>Index and type lookup\<close>

lemma type_indexer_absent:
  "T \<notin> set Args \<Longrightarrow> type_indexer T Args = invalid_idx"
  by (induction Args) auto

lemma type_indexer_present:
  "T \<in> set Args \<Longrightarrow> \<exists>k < length Args. type_indexer T Args = of_nat k"
proof (induction Args)
  case Nil
  then show ?case by simp
next
  case (Cons First Types)
  show ?case
  proof (cases "T = First")
    case True
    then show ?thesis by auto
  next
    case False
    with Cons obtain k where "k < length Types" "type_indexer T Types = of_nat k"
      by auto
    with False show ?thesis
      by (auto intro!: exI [of _ k])
  qed
qed

lemma size_idx_of_nat_inj:
  assumes "j < 2 ^ 64" "k < 2 ^ 64" "(of_nat j :: size_idx_t) = of_nat k"
  shows "j = k"
proof -
  have "unat (of_nat j :: size_idx_t) = j" "unat (of_nat k :: size_idx_t) = k"
    using assms(1,2) by (simp_all add: unat_of_nat take_bit_nat_eq_self)
  with assms(3) show ?thesis by metis
qed

lemma type_get_type_indexer:
  "T \<in> set Args \<Longrightarrow> length Args < 2 ^ 64 \<Longrightarrow> type_get (type_indexer T Args) Args = T"
proof (induction Args)
  case Nil
  then show ?case by simp
next
  case (Cons First Types)
  show ?case
  proof (cases "T = First")
    case True
    then show ?thesis by simp
  next
    case False
    with Cons.prems have mem: "T \<in> set Types" and len: "length Types < 2 ^ 64"
      by auto
    from type_indexer_present [OF mem] obtain k where
      k: "k < length Types" "type_indexer T Types = of_nat k"
      by blast
    have "(of_nat k :: size_idx_t) \<noteq> of_nat (length Types)"
      using size_idx_of_nat_inj [of k "length Types"] k(1) len by auto
    with False k Cons.IH [OF mem len] show ?thesis by simp
  qed
qed

text \<open>
  C10. The index and type lookups are mutually inverse: for a type \<open>T\<close> that occurs
  exactly once in \<open>Args\<close>, \<open>type_get\<close> at index \<open>type_indexer<T, Args...>::index\<close> over
  \<open>Args\<close> is \<open>T\<close>; for a type that is not in the list the index is \<open>invalid_idx\<close>.
  (A parameter pack has fewer than \<open>2^64\<close> types.)
\<close>

theorem type_indexer_type_get_inverse:
  "(count_list Args T = 1 \<longrightarrow> length Args < 2 ^ 64 \<longrightarrow>
      type_get (type_indexer T Args) Args = T) \<and>
   (T \<notin> set Args \<longrightarrow> type_indexer T Args = invalid_idx)"
proof (intro conjI impI)
  assume once: "count_list Args T = 1" and len: "length Args < 2 ^ 64"
  have "T \<in> set Args"
  proof (rule ccontr)
    assume "T \<notin> set Args"
    then have "count_list Args T = 0" by (simp add: count_list_0_iff)
    with once show False by simp
  qed
  then show "type_get (type_indexer T Args) Args = T"
    using len by (rule type_get_type_indexer)
next
  assume "T \<notin> set Args"
  then show "type_indexer T Args = invalid_idx" by (rule type_indexer_absent)
qed

theorem type_indexer_type_get_inverse_witness:
  "count_list [Class ''A'', Class ''B'', Class ''C''] (Class ''B'') = 1 \<and>
   type_indexer (Class ''B'') [Class ''A'', Class ''B'', Class ''C''] = 1 \<and>
   type_get 1 [Class ''A'', Class ''B'', Class ''C''] = Class ''B'' \<and>
   type_indexer (Class ''D'') [Class ''A'', Class ''B'', Class ''C''] = invalid_idx"
  using type_indexer_type_get_inverse
    [of "[Class ''A'', Class ''B'', Class ''C'']" "Class ''B''"]
    type_indexer_type_get_inverse
    [of "[Class ''A'', Class ''B'', Class ''C'']" "Class ''D''"]
  by simp

section \<open>Assignment and access of the tagged union\<close>

lemma can_hold_type_mem: "can_hold_type T Args \<Longrightarrow> T \<in> set Args"
  using type_indexer_absent [of T Args] by (auto simp: can_hold_type_def)

lemma type_indexer_inj:
  assumes "X \<in> set Args" "T \<in> set Args" "length Args < 2 ^ 64"
    "type_indexer X Args = type_indexer T Args"
  shows "X = T"
proof -
  have "X = type_get (type_indexer X Args) Args"
    by (rule sym) (rule type_get_type_indexer [OF assms(1,3)])
  also have "\<dots> = type_get (type_indexer T Args) Args"
    by (simp only: assms(4))
  also have "\<dots> = T"
    by (rule type_get_type_indexer [OF assms(2,3)])
  finally show ?thesis .
qed

text \<open>The visit of a well-formed union reaches the active alternative.\<close>

lemma visit_impl_finds:
  "T0 \<in> set Types \<Longrightarrow> is_t T0 Args c \<Longrightarrow>
   (\<And>X. X \<in> set Types \<Longrightarrow> is_t X Args c \<Longrightarrow> X = T0) \<Longrightarrow>
   visit_impl Args Types c = Some T0"
proof (induction Args Types c rule: visit_impl.induct)
  case (1 Args c)
  then show ?case by simp
next
  case (2 Args T c)
  then show ?case by simp
next
  case (3 Args First T Types c)
  show ?case
  proof (cases "is_t First Args c")
    case True
    with 3(4) [of First] show ?thesis by simp
  next
    case False
    with 3(3) have "First \<noteq> T0" by auto
    with 3(2) have mem: "T0 \<in> set (T # Types)" by simp
    have "visit_impl Args (T # Types) c = Some T0"
      using 3(1) [OF False mem 3(3)] 3(4) by simp
    with False show ?thesis by simp
  qed
qed

lemma visit_impl_holds:
  assumes "holds Args c T0 v0" "length Args < 2 ^ 64"
  shows "visit_impl Args Args c = Some T0"
proof -
  from assms(1) have mem: "T0 \<in> set Args" and act: "is_t T0 Args c"
    by (simp_all add: holds_def can_hold_type_mem is_t_def)
  have "X = T0" if "X \<in> set Args" "is_t X Args c" for X
    using type_indexer_inj [OF that(1) mem assms(2)] that(2) act by (simp add: is_t_def)
  with mem act show ?thesis by (rule visit_impl_finds)
qed

lemma dtor_unsafe_holds:
  assumes "holds Args c T0 v0" "length Args < 2 ^ 64"
  shows "dtor_unsafe Args c = c\<lparr>buffer := None, destroyed := destroyed c @ [(T0, v0)]\<rparr>"
  using assms(1) visit_impl_holds [OF assms]
  by (simp add: dtor_unsafe_def destroy_unsafe_def holds_def)

lemma is_t_holds:
  assumes "holds Args c T0 v0" "length Args < 2 ^ 64"
  shows "is_t U Args c \<longleftrightarrow> U = T0"
proof
  assume u: "is_t U Args c"
  from assms(1) have mem: "T0 \<in> set Args" and id: "type_id c = type_indexer T0 Args"
    and ch: "can_hold_type T0 Args"
    by (simp_all add: holds_def can_hold_type_mem)
  have "U \<in> set Args"
  proof (rule ccontr)
    assume "U \<notin> set Args"
    then have "type_indexer U Args = invalid_idx" by (rule type_indexer_absent)
    with u id ch show False by (simp add: is_t_def can_hold_type_def)
  qed
  then show "U = T0"
    using type_indexer_inj [OF _ mem assms(2)] u id by (simp add: is_t_def)
next
  assume "U = T0"
  with assms(1) show "is_t U Args c" by (simp add: holds_def is_t_def)
qed

text \<open>\<open>emplace\<close> destroys the old value once, whatever was active.\<close>

lemma emplace_destroys_once:
  assumes "holds Args c T0 v0" "length Args < 2 ^ 64" "can_hold_type (decay U) Args"
  shows "destroyed (emplace U u Args c) = destroyed c @ [(T0, v0)] \<and>
         holds Args (emplace U u Args c) (decay U) u"
  using assms(3)
  by (simp add: emplace_def construct_emplace_unsafe_def dtor_unsafe_holds [OF assms(1,2)]
      holds_def)

text \<open>
  C9. For a union \<open>c\<close> that holds a value \<open>v0\<close> of the alternative \<open>T0\<close> and a value \<open>u\<close>
  of an alternative, the assignment \<open>c = u\<close> leaves \<open>c\<close> holding \<open>u\<close> as the one active
  alternative. It runs the destructor of \<open>v0\<close> once, except when the deduced type \<open>U\<close>
  of the argument is \<open>T0\<close> itself (an rvalue of the active alternative): then no
  destructor runs and the new value is constructed over the old one.
\<close>

theorem operator_assign_skips_destructor_of_same_type:
  assumes "holds Args c T0 v0" "length Args < 2 ^ 64" "can_hold_type (decay U) Args"
  shows "destroyed (operator_assign U u Args c) =
           destroyed c @ (if U = T0 then [] else [(T0, v0)]) \<and>
         holds Args (operator_assign U u Args c) (decay U) u \<and>
         get (decay U) Args (operator_assign U u Args c) = Inr u"
proof -
  have h: "holds Args (operator_assign U u Args c) (decay U) u"
    using assms(3)
    by (simp add: operator_assign_def construct_unsafe_def holds_def)
  have d: "destroyed (operator_assign U u Args c) =
           destroyed c @ (if U = T0 then [] else [(T0, v0)])"
    by (simp add: operator_assign_def construct_unsafe_def dtor_unsafe_holds [OF assms(1,2)]
        is_t_holds [OF assms(1,2)])
  from h have "get (decay U) Args (operator_assign U u Args c) = Inr u"
    by (simp add: get_def holds_def is_t_def get_unsafe_def)
  with h d show ?thesis by simp
qed

lemma holds_choice_t:
  "holds A_or_B (choice_t (Class ''A'') v A_or_B) (Class ''A'') v"
  by (simp add: holds_def choice_t_def construct_unsafe_def raw_storage_def decay_def
      A_or_B_def can_hold_type_def invalid_idx_def)

theorem operator_assign_skips_destructor_of_same_type_witness:
  "holds A_or_B (choice_t (Class ''A'') (1::nat) A_or_B) (Class ''A'') 1 \<and>
   destroyed (operator_assign (Class ''A'') (2::nat) A_or_B (choice_t (Class ''A'') 1 A_or_B)) =
     [] \<and>
   get (Class ''A'') A_or_B
     (operator_assign (Class ''A'') (2::nat) A_or_B (choice_t (Class ''A'') 1 A_or_B)) = Inr 2 \<and>
   destroyed (operator_assign (LRef (Class ''A'')) (2::nat) A_or_B
     (choice_t (Class ''A'') 1 A_or_B)) = [(Class ''A'', 1)] \<and>
   destroyed (operator_assign (Class ''B'') (2::nat) A_or_B (choice_t (Class ''A'') 1 A_or_B)) =
     [(Class ''A'', 1)] \<and>
   destroyed (emplace (Class ''A'') (2::nat) A_or_B (choice_t (Class ''A'') 1 A_or_B)) =
     [(Class ''A'', 1)]"
proof -
  have len: "length A_or_B < 2 ^ 64" by (simp add: A_or_B_def)
  have ch: "can_hold_type (decay (Class ''A'')) A_or_B"
    "can_hold_type (decay (LRef (Class ''A''))) A_or_B"
    "can_hold_type (decay (Class ''B'')) A_or_B"
    by (simp_all add: can_hold_type_def decay_def A_or_B_def invalid_idx_def)
  have fresh: "destroyed (choice_t (Class ''A'') v A_or_B) = []" for v :: nat
    by (simp add: choice_t_def construct_unsafe_def raw_storage_def)
  have h: "holds A_or_B (choice_t (Class ''A'') (1::nat) A_or_B) (Class ''A'') 1"
    by (rule holds_choice_t)
  from operator_assign_skips_destructor_of_same_type [OF h len ch(1), where u = 2]
    operator_assign_skips_destructor_of_same_type [OF h len ch(2), where u = 2]
    operator_assign_skips_destructor_of_same_type [OF h len ch(3), where u = 2]
    emplace_destroys_once [OF h len ch(1), where u = 2]
  show ?thesis
    by (simp add: holds_choice_t fresh decay_def)
qed

lemma get_throws: "\<not> is_t T Args c \<Longrightarrow> get T Args c = Inl (Bad_choice_access ''in get<T>'')"
  by (simp add: get_def)

lemma get_holds: "holds Args c T v \<Longrightarrow> get T Args c = Inr v"
  by (simp add: get_def holds_def is_t_def get_unsafe_def)

section \<open>The receive handler\<close>

lemma foldl_queue_send:
  "foldl (\<lambda>b p. snd (queue_send_e2ap_pdu p b)) a pdus =
     a\<lparr>ric_rece_task_queue := ric_rece_task_queue a @ map Send_e2ap_pdu_task pdus\<rparr>"
  by (induction pdus arbitrary: a) (simp_all add: queue_send_e2ap_pdu_def)

lemma e2ap_process_eq:
  "e2ap_process (ret, e, pdus) a =
     (ret \<noteq> 0,
      a\<lparr>e2ap := e, ric_rece_task_queue := ric_rece_task_queue a @ map Send_e2ap_pdu_task pdus\<rparr>)"
  by (simp add: e2ap_process_def foldl_queue_send)

lemma e2ap_process_sel:
  "e2ap_process r a =
     (fst r \<noteq> 0,
      a\<lparr>e2ap := fst (snd r),
        ric_rece_task_queue := ric_rece_task_queue a @ map Send_e2ap_pdu_task (snd (snd r))\<rparr>)"
  by (cases r rule: prod_cases3) (simp add: e2ap_process_eq)

subsection \<open>Undecodable bytes\<close>

text \<open>
  C2. Bytes that do not decode are logged and dropped: the handler writes one error to
  the log and returns \<open>false\<close>; the session, the task queue, the socket, the worker and
  the \<open>running\<close> flag are what they were.
\<close>

theorem undecodable_bytes_logged_and_dropped:
  "unpack env pdu = None \<Longrightarrow>
   handle_e2_rx_msg env E pdu a =
     (False, a\<lparr>logger := logger a @ [(Error, ''Failed to unpack RX E2 PDU'', [])]\<rparr>)"
  by (simp add: handle_e2_rx_msg_def log_def)

lemma started_agent_eq:
  "started_agent =
     \<lparr>running = True, ric_socket = Sock_connected, ric_rece_task_queue = [],
      e2ap = e2ap_ctor 5 3, thread = At_while, logger = [], outbound = []\<rparr>"
  by (simp add: started_agent_def fresh_agent_def init_def env_ok_def e2_agent_ctor_def)

theorem undecodable_bytes_logged_and_dropped_witness:
  "unpack env_ok [7, 7] = None \<and>
   handle_e2_rx_msg env_ok spec_e2ap [7, 7] started_agent =
     (False, started_agent\<lparr>logger := [(Error, ''Failed to unpack RX E2 PDU'', [])]\<rparr>)"
  using undecodable_bytes_logged_and_dropped [of env_ok "[7, 7]" spec_e2ap started_agent]
  by (simp add: env_ok_def example_unpack_def started_agent_eq)

subsection \<open>What every handler leaves alone\<close>

lemma untouched_refl [simp]: "untouched a a"
  by (simp add: untouched_def)

lemma untouched_log [simp]: "untouched a (log lvl msg args b) = untouched a b"
  by (simp add: untouched_def log_def)

lemma untouched_after_log: "untouched (log lvl msg args a) b \<Longrightarrow> untouched a b"
  by (simp add: untouched_def log_def)

lemma untouched_subscription_request:
  "untouched a (snd (handle_ric_subscription_request E r a))"
  by (simp add: handle_ric_subscription_request_def e2ap_process_sel untouched_def log_def
      Let_def)

lemma untouched_subscription_delete_request:
  "untouched a (snd (handle_ric_subscription_delete_request E r a))"
  by (simp add: handle_ric_subscription_delete_request_def e2ap_process_sel untouched_def
      log_def Let_def)

lemma untouched_reset_request: "untouched a (snd (handle_reset_request E r a))"
  by (simp add: handle_reset_request_def e2ap_process_sel untouched_def log_def Let_def)

lemma untouched_reset_response: "untouched a (snd (handle_reset_response E r a))"
  by (simp add: handle_reset_response_def e2ap_process_sel untouched_def log_def)

lemma untouched_setup_response: "untouched a (snd (handle_e2_setup_response E r a))"
  by (simp add: handle_e2_setup_response_def e2ap_process_sel untouched_def log_def)

lemma untouched_unsuccessful_branch:
  "untouched a (snd (unsuccessful_branch info err process a))"
  by (simp add: unsuccessful_branch_def e2ap_process_sel untouched_def log_def Let_def)

lemma untouched_init_msg: "untouched a (snd (handle_e2_init_msg E m a))"
  by (cases m)
     (simp_all add: handle_e2_init_msg_def
        untouched_after_log [OF untouched_subscription_request]
        untouched_after_log [OF untouched_subscription_delete_request]
        untouched_after_log [OF untouched_reset_request])

lemma untouched_successful_outcome: "untouched a (snd (handle_e2_successful_outcome E m a))"
  by (cases m)
     (simp_all add: handle_e2_successful_outcome_def
        untouched_after_log [OF untouched_setup_response]
        untouched_after_log [OF untouched_reset_response])

lemma untouched_unsuccessful_outcome:
  "untouched a (snd (handle_e2_unsuccessful_outcome E m a))"
  by (cases m)
     (simp_all add: handle_e2_unsuccessful_outcome_def untouched_unsuccessful_branch)

lemma untouched_rx_msg: "untouched a (snd (handle_e2_rx_msg env E pdu a))"
proof (cases "unpack env pdu")
  case None
  then show ?thesis by (simp add: handle_e2_rx_msg_def)
next
  case (Some pdu_c)
  then show ?thesis
    by (cases pdu_c)
       (simp_all add: handle_e2_rx_msg_def
          untouched_after_log [OF untouched_init_msg]
          untouched_after_log [OF untouched_successful_outcome]
          untouched_after_log [OF untouched_unsuccessful_outcome])
qed

subsection \<open>PDUs without a procedure\<close>

lemma only_logged_log [simp]: "only_logged a (log lvl msg args a)"
  by (simp add: only_logged_def log_def)

lemma only_logged_after_log:
  assumes "only_logged (log lvl msg args a) b"
  shows "only_logged a b"
proof -
  let ?l = "logger a @ [(lvl, msg, args)]"
  from assms have eq: "b\<lparr>logger := ?l\<rparr> = a\<lparr>logger := ?l\<rparr>"
    and len: "length ?l < length (logger b)"
    by (simp_all add: only_logged_def log_def)
  from eq have "(b\<lparr>logger := ?l\<rparr>)\<lparr>logger := logger a\<rparr> = (a\<lparr>logger := ?l\<rparr>)\<lparr>logger := logger a\<rparr>"
    by (rule arg_cong)
  then have "b\<lparr>logger := logger a\<rparr> = a" by simp
  with len show ?thesis by (simp add: only_logged_def)
qed

lemma dropped_init_msg:
  "matching_procedure E (Init_msg m) = None \<Longrightarrow>
   only_logged a (snd (handle_e2_init_msg E m a))"
  by (cases m) (simp_all add: matching_procedure_def handle_e2_init_msg_def)

lemma dropped_successful_outcome:
  "matching_procedure E (Successful_outcome m) = None \<Longrightarrow>
   only_logged a (snd (handle_e2_successful_outcome E m a))"
  by (cases m) (simp_all add: matching_procedure_def handle_e2_successful_outcome_def)

lemma dropped_unsuccessful_outcome:
  "matching_procedure E (Unsuccessful_outcome m) = None \<Longrightarrow>
   only_logged a (snd (handle_e2_unsuccessful_outcome E m a))"
  by (cases m) (simp_all add: matching_procedure_def handle_e2_unsuccessful_outcome_def)

lemma dropped_pdu:
  assumes "unpack env pdu = Some pdu_c" "matching_procedure E pdu_c = None"
  shows "only_logged a (snd (handle_e2_rx_msg env E pdu a))"
proof (cases pdu_c)
  case (Init_msg m)
  with assms show ?thesis
    by (simp add: handle_e2_rx_msg_def only_logged_after_log [OF dropped_init_msg])
next
  case (Successful_outcome m)
  with assms show ?thesis
    by (simp add: handle_e2_rx_msg_def only_logged_after_log [OF dropped_successful_outcome])
next
  case (Unsuccessful_outcome m)
  with assms show ?thesis
    by (simp add: handle_e2_rx_msg_def only_logged_after_log [OF dropped_unsuccessful_outcome])
next
  case Nulltype
  with assms(1) show ?thesis
    by (simp add: handle_e2_rx_msg_def)
qed

subsection \<open>Dispatch\<close>

lemma rx_msg_returns_true:
  "unpack env pdu = Some pdu_c \<Longrightarrow> fst (handle_e2_rx_msg env E pdu a)"
  by (cases pdu_c) (simp_all add: handle_e2_rx_msg_def)

lemma rx_msg_by_envelope:
  assumes "unpack env pdu = Some pdu_c"
  shows "snd (handle_e2_rx_msg env E pdu a) =
     (case pdu_c of
        Init_msg m \<Rightarrow>
          snd (handle_e2_init_msg E m (log Info ''Received E2AP Init Message'' [] a))
      | Successful_outcome m \<Rightarrow>
          snd (handle_e2_successful_outcome E m
                 (log Info ''Received E2AP Successful Outcome'' [] a))
      | Unsuccessful_outcome m \<Rightarrow>
          snd (handle_e2_unsuccessful_outcome E m
                 (log Info ''Received E2AP Unsuccessful Outcome '' [] a))
      | Nulltype \<Rightarrow> log Warning ''Received E2AP Unknown Message '' [] a)"
  using assms by (cases pdu_c) (simp_all add: handle_e2_rx_msg_def)

lemma init_msg_effect:
  "e2ap (snd (handle_e2_init_msg E m a)) = dispatched_state E (Init_msg m) (e2ap a) \<and>
   ric_rece_task_queue (snd (handle_e2_init_msg E m a)) =
     ric_rece_task_queue a @ dispatched_tasks E (Init_msg m) (e2ap a)"
  by (cases m)
     (simp_all add: handle_e2_init_msg_def dispatched_state_def dispatched_tasks_def
        matching_procedure_def is_reset_request_def handle_ric_subscription_request_def
        handle_ric_subscription_delete_request_def handle_reset_request_def
        e2ap_process_sel log_def Let_def)

lemma successful_outcome_effect:
  "e2ap (snd (handle_e2_successful_outcome E m a)) =
     dispatched_state E (Successful_outcome m) (e2ap a) \<and>
   ric_rece_task_queue (snd (handle_e2_successful_outcome E m a)) =
     ric_rece_task_queue a @ dispatched_tasks E (Successful_outcome m) (e2ap a)"
  by (cases m)
     (simp_all add: handle_e2_successful_outcome_def dispatched_state_def dispatched_tasks_def
        matching_procedure_def is_reset_request_def handle_e2_setup_response_def
        handle_reset_response_def e2ap_process_sel log_def Let_def)

lemma unsuccessful_outcome_effect:
  "e2ap (snd (handle_e2_unsuccessful_outcome E m a)) =
     dispatched_state E (Unsuccessful_outcome m) (e2ap a) \<and>
   ric_rece_task_queue (snd (handle_e2_unsuccessful_outcome E m a)) =
     ric_rece_task_queue a @ dispatched_tasks E (Unsuccessful_outcome m) (e2ap a)"
  by (cases m)
     (simp_all add: handle_e2_unsuccessful_outcome_def dispatched_state_def
        dispatched_tasks_def matching_procedure_def is_reset_request_def
        unsuccessful_branch_def e2ap_process_sel log_def Let_def)

lemma rx_msg_effect:
  assumes "unpack env pdu = Some pdu_c"
  shows "e2ap (snd (handle_e2_rx_msg env E pdu a)) = dispatched_state E pdu_c (e2ap a)"
    and "ric_rece_task_queue (snd (handle_e2_rx_msg env E pdu a)) =
           ric_rece_task_queue a @ dispatched_tasks E pdu_c (e2ap a)"
proof -
  have l: "e2ap (log lvl msg args a) = e2ap a"
    "ric_rece_task_queue (log lvl msg args a) = ric_rece_task_queue a" for lvl msg args
    by (simp_all add: log_def)
  show "e2ap (snd (handle_e2_rx_msg env E pdu a)) = dispatched_state E pdu_c (e2ap a)"
    using assms
    by (cases pdu_c)
       (simp_all add: handle_e2_rx_msg_def init_msg_effect successful_outcome_effect
          unsuccessful_outcome_effect l dispatched_state_def matching_procedure_def)
  show "ric_rece_task_queue (snd (handle_e2_rx_msg env E pdu a)) =
           ric_rece_task_queue a @ dispatched_tasks E pdu_c (e2ap a)"
    using assms
    by (cases pdu_c)
       (simp_all add: handle_e2_rx_msg_def init_msg_effect successful_outcome_effect
          unsuccessful_outcome_effect l dispatched_tasks_def matching_procedure_def)
qed

text \<open>
  C5. A decoded PDU is classified by its envelope and handed to the handler of that
  envelope, which routes it by procedure: the E2AP state and the queued tasks afterwards
  are those of the matching procedure. A PDU with no matching procedure (unknown or
  not implemented) only adds to the log. Either way the handler returns \<open>true\<close>, and the
  \<open>running\<close> flag, the socket, the worker and the outbound trace are untouched.
\<close>

theorem dispatch_by_envelope_and_procedure:
  assumes "unpack env pdu = Some pdu_c"
  shows "fst (handle_e2_rx_msg env E pdu a) \<and>
    snd (handle_e2_rx_msg env E pdu a) =
      (case pdu_c of
         Init_msg m \<Rightarrow>
           snd (handle_e2_init_msg E m (log Info ''Received E2AP Init Message'' [] a))
       | Successful_outcome m \<Rightarrow>
           snd (handle_e2_successful_outcome E m
                  (log Info ''Received E2AP Successful Outcome'' [] a))
       | Unsuccessful_outcome m \<Rightarrow>
           snd (handle_e2_unsuccessful_outcome E m
                  (log Info ''Received E2AP Unsuccessful Outcome '' [] a))
       | Nulltype \<Rightarrow> log Warning ''Received E2AP Unknown Message '' [] a) \<and>
    e2ap (snd (handle_e2_rx_msg env E pdu a)) = dispatched_state E pdu_c (e2ap a) \<and>
    ric_rece_task_queue (snd (handle_e2_rx_msg env E pdu a)) =
      ric_rece_task_queue a @ dispatched_tasks E pdu_c (e2ap a) \<and>
    untouched a (snd (handle_e2_rx_msg env E pdu a)) \<and>
    (matching_procedure E pdu_c = None \<longrightarrow> only_logged a (snd (handle_e2_rx_msg env E pdu a)))"
proof -
  have "matching_procedure E pdu_c = None \<longrightarrow>
        only_logged a (snd (handle_e2_rx_msg env E pdu a))"
    using dropped_pdu [OF assms] by blast
  moreover note rx_msg_returns_true [OF assms] rx_msg_by_envelope [OF assms]
    rx_msg_effect [OF assms] untouched_rx_msg
  ultimately show ?thesis by blast
qed

theorem dispatch_by_envelope_and_procedure_witness:
  "unpack env_ok [2] = Some (Init_msg (Ri_cctrl_request 0)) \<and>
   matching_procedure spec_e2ap (Init_msg (Ri_cctrl_request 0)) = None \<and>
   only_logged started_agent (snd (handle_e2_rx_msg env_ok spec_e2ap [2] started_agent)) \<and>
   handle_e2_rx_msg env_ok spec_e2ap [2] started_agent =
     (True, started_agent\<lparr>logger := [(Info, ''Received E2AP Init Message'', []),
                                      (Info, ''Received E2AP RIC Control Request'', [])]\<rparr>) \<and>
   unpack env_ok [1, 0, 0] = Some (Init_msg (Reset_request \<lparr>transaction_id = 2\<rparr>)) \<and>
   e2ap (snd (handle_e2_rx_msg env_ok spec_e2ap [1, 0, 0] started_agent)) =
     fst (snd (process_reset_request spec_e2ap \<lparr>transaction_id = 2\<rparr> (e2ap started_agent)))"
proof -
  have u: "unpack env_ok [2] = Some (Init_msg (Ri_cctrl_request 0))"
    "unpack env_ok [1, 0, 0] = Some (Init_msg (Reset_request \<lparr>transaction_id = 2\<rparr>))"
    by (simp_all add: env_ok_def example_unpack_def)
  have n: "matching_procedure spec_e2ap (Init_msg (Ri_cctrl_request 0)) = None"
    by (simp add: matching_procedure_def)
  have r: "dispatched_state spec_e2ap (Init_msg (Reset_request \<lparr>transaction_id = 2\<rparr>)) e =
      fst (snd (process_reset_request spec_e2ap \<lparr>transaction_id = 2\<rparr> e))" for e
    by (simp add: dispatched_state_def matching_procedure_def)
  have v: "handle_e2_rx_msg env_ok spec_e2ap [2] started_agent =
     (True, started_agent\<lparr>logger := [(Info, ''Received E2AP Init Message'', []),
                                      (Info, ''Received E2AP RIC Control Request'', [])]\<rparr>)"
    by (simp add: handle_e2_rx_msg_def u handle_e2_init_msg_def log_def started_agent_eq)
  have d: "only_logged started_agent (snd (handle_e2_rx_msg env_ok spec_e2ap [2] started_agent))"
    using dispatch_by_envelope_and_procedure [OF u(1), of spec_e2ap started_agent] n
    by blast
  have "e2ap (snd (handle_e2_rx_msg env_ok spec_e2ap [1, 0, 0] started_agent)) =
      dispatched_state spec_e2ap (Init_msg (Reset_request \<lparr>transaction_id = 2\<rparr>))
        (e2ap started_agent)"
    using dispatch_by_envelope_and_procedure [OF u(2), of spec_e2ap started_agent]
    by blast
  then have "e2ap (snd (handle_e2_rx_msg env_ok spec_e2ap [1, 0, 0] started_agent)) =
     fst (snd (process_reset_request spec_e2ap \<lparr>transaction_id = 2\<rparr> (e2ap started_agent)))"
    by (simp only: r)
  with u n v d show ?thesis by blast
qed

section \<open>Sending and tasks\<close>

lemma outbound_pdus_send_e2ap_pdu:
  "outbound_pdus (snd (send_e2ap_pdu env p a)) = outbound_pdus a @ [p]"
  by (simp add: send_e2ap_pdu_def outbound_pdus_def log_def Let_def split: option.splits)


lemma transmitted_update [simp]:
  "transmitted (a\<lparr>e2ap := e\<rparr>) = transmitted a"
  "transmitted (a\<lparr>ric_rece_task_queue := q\<rparr>) = transmitted a"
  "transmitted (a\<lparr>thread := th\<rparr>) = transmitted a"
  "transmitted (a\<lparr>running := r\<rparr>) = transmitted a"
  "transmitted (a\<lparr>logger := l\<rparr>) = transmitted a"
  by (simp_all add: transmitted_def)

lemma send_e2ap_pdu_keeps:
  "e2ap (snd (send_e2ap_pdu env p a)) = e2ap a \<and>
   ric_rece_task_queue (snd (send_e2ap_pdu env p a)) = ric_rece_task_queue a \<and>
   running (snd (send_e2ap_pdu env p a)) = running a \<and>
   ric_socket (snd (send_e2ap_pdu env p a)) = ric_socket a \<and>
   thread (snd (send_e2ap_pdu env p a)) = thread a"
  by (simp add: send_e2ap_pdu_def log_def Let_def split: option.splits)

lemma send_e2_msg_keeps:
  "running (snd (send_e2_msg env E m a)) = running a \<and>
   ric_socket (snd (send_e2_msg env E m a)) = ric_socket a \<and>
   thread (snd (send_e2_msg env E m a)) = thread a"
  by (cases m) (simp_all add: send_e2_msg_def send_e2ap_pdu_keeps split: prod.splits)

lemma run_task_keeps:
  "running (run_task env E t a) = running a \<and>
   ric_socket (run_task env E t a) = ric_socket a \<and>
   thread (run_task env E t a) = thread a"
proof (cases t)
  case (Rx_callback pdu)
  then show ?thesis
    using untouched_rx_msg [of a env E pdu] by (simp add: run_task_def untouched_def)
next
  case Send_reset_resp
  then show ?thesis by (simp add: run_task_def send_e2_msg_keeps)
next
  case (Send_e2ap_pdu_task p)
  then show ?thesis by (simp add: run_task_def send_e2ap_pdu_keeps)
qed

section \<open>Errors\<close>

text \<open>
  C8, as the code has it. Errors of the codec, of the protocol and of the transport are
  handled where they arise: whatever bytes arrive and whatever task runs, the agent
  keeps running as it was, with its socket and its worker where they were. A read
  \<open>get<T>\<close> of an alternative that is not active is not handled where it arises: it
  throws \<open>bad_choice_access\<close> to the caller; a read of the active alternative returns
  the value.
\<close>

theorem errors_local_except_bad_choice_access:
  "(\<not> is_t T Args c \<longrightarrow> get T Args c = Inl (Bad_choice_access ''in get<T>'')) \<and>
   (holds Args c T v \<longrightarrow> get T Args c = Inr v) \<and>
   running (snd (handle_e2_rx_msg env E pdu a)) = running a \<and>
   ric_socket (snd (handle_e2_rx_msg env E pdu a)) = ric_socket a \<and>
   thread (snd (handle_e2_rx_msg env E pdu a)) = thread a \<and>
   running (run_task env E t a) = running a \<and>
   ric_socket (run_task env E t a) = ric_socket a \<and>
   thread (run_task env E t a) = thread a"
  using untouched_rx_msg [of a env E pdu] run_task_keeps [of env E t a]
  by (simp add: get_throws get_holds untouched_def)

theorem errors_local_except_bad_choice_access_witness:
  "holds A_or_B (choice_t (Class ''A'') (1::nat) A_or_B) (Class ''A'') 1 \<and>
   get (Class ''A'') A_or_B (choice_t (Class ''A'') (1::nat) A_or_B) = Inr 1 \<and>
   running (snd (handle_e2_rx_msg env_ok spec_e2ap [7, 7] started_agent)) \<and>
   ric_socket (snd (handle_e2_rx_msg env_ok spec_e2ap [7, 7] started_agent)) = Sock_connected"
  using errors_local_except_bad_choice_access
    [of "Class ''A''" A_or_B "choice_t (Class ''A'') (1::nat) A_or_B" 1 env_ok spec_e2ap
      "[7, 7]" started_agent Send_reset_resp]
    holds_choice_t [of "1::nat"]
  by (simp add: started_agent_eq)

text \<open>
  The specification has no operation throw. Reading alternative \<open>B\<close> of a union that
  holds an \<open>A\<close> throws.
\<close>

theorem get_of_inactive_alternative_throws:
  "get (Class ''B'') A_or_B (choice_t (Class ''A'') (1::nat) A_or_B) =
     Inl (Bad_choice_access ''in get<T>'')"
  by (simp add: get_def is_t_def choice_t_def construct_unsafe_def A_or_B_def decay_def
      raw_storage_def)

section \<open>The agent with the procedures of the specification\<close>

subsection \<open>The Reset Response\<close>

lemma spec_send_reset_resp:
  "outbound_pdus (run_task env spec_e2ap Send_reset_resp b) =
     outbound_pdus b @ [Successful_outcome (Reset_resp \<lparr>transaction_id = reset_id (e2ap b)\<rparr>)]"
  by (simp add: run_task_def send_e2_msg_def spec_e2ap_def spec_generate_reset_response_def
      outbound_pdus_send_e2ap_pdu)

subsection \<open>Pending Procedures only go away\<close>

lemma sub_pending_same: "pending s' = pending s \<Longrightarrow> sub_pending s s'"
  unfolding sub_pending_def by (rule exI [of _ "\<lambda>p. True"]) simp

lemma sub_pending_filter: "pending s' = filter Q (pending s) \<Longrightarrow> sub_pending s s'"
  unfolding sub_pending_def by blast

lemma sub_pending_nil: "pending s' = [] \<Longrightarrow> sub_pending s s'"
  unfolding sub_pending_def by (rule exI [of _ "\<lambda>p. False"]) simp

lemma sub_pending_length:
  assumes "sub_pending s s'"
  shows "length (pending_of k s') \<le> length (pending_of k s)"
proof -
  from assms obtain P where P: "pending s' = filter P (pending s)"
    by (auto simp: sub_pending_def)
  have "pending_of k s' = filter P (pending_of k s)"
    by (simp add: pending_of_def P conj_commute)
  then show ?thesis by simp
qed

lemma sub_pending_setup_response: "sub_pending s (fst (snd (spec_process_setup_response r s)))"
  by (simp add: spec_process_setup_response_def remove_pending_def sub_pending_same
      sub_pending_filter)

lemma sub_pending_setup_failure: "sub_pending s (fst (snd (spec_process_e2_setup_failure f s)))"
  by (simp add: spec_process_e2_setup_failure_def remove_pending_def sub_pending_same
      sub_pending_filter)

lemma sub_pending_outcome: "sub_pending s (fst (snd (spec_process_outcome k f s)))"
  by (simp add: spec_process_outcome_def remove_pending_def sub_pending_same
      sub_pending_filter)

lemma sub_pending_reset_request: "sub_pending s (fst (snd (spec_process_reset_request r s)))"
  by (simp add: spec_process_reset_request_def sub_pending_nil)

lemma sub_pending_subscription_request:
  "sub_pending s (fst (snd (spec_process_subscription_request r s)))"
  by (simp add: spec_process_subscription_request_def sub_pending_same)

lemma sub_pending_subscription_delete_request:
  "sub_pending s (fst (snd (spec_process_subscription_delete_request r s)))"
  by (simp add: spec_process_subscription_delete_request_def sub_pending_same)

lemma sub_pending_dispatched: "sub_pending s (dispatched_state spec_e2ap pdu_c s)"
proof (cases pdu_c)
  case (Init_msg m)
  then show ?thesis
    by (cases m)
       (simp_all add: dispatched_state_def matching_procedure_def spec_e2ap_def
          sub_pending_same sub_pending_reset_request sub_pending_subscription_request
          sub_pending_subscription_delete_request)
next
  case (Successful_outcome m)
  then show ?thesis
    by (cases m)
       (simp_all add: dispatched_state_def matching_procedure_def spec_e2ap_def
          sub_pending_same sub_pending_setup_response sub_pending_outcome)
next
  case (Unsuccessful_outcome m)
  then show ?thesis
    by (cases m)
       (simp_all add: dispatched_state_def matching_procedure_def spec_e2ap_def
          sub_pending_same sub_pending_setup_failure sub_pending_outcome)
next
  case Nulltype
  then show ?thesis
    by (simp add: dispatched_state_def matching_procedure_def sub_pending_same)
qed

lemma good_dispatched: "list_all good_task (dispatched_tasks spec_e2ap pdu_c s)"
proof (cases pdu_c)
  case (Init_msg m)
  then show ?thesis
    by (cases m)
       (simp_all add: dispatched_tasks_def matching_procedure_def spec_e2ap_def good_task_def
          is_setup_request_def is_reset_response_def spec_process_reset_request_def
          spec_process_subscription_request_def spec_process_subscription_delete_request_def)
next
  case (Successful_outcome m)
  then show ?thesis
    by (cases m)
       (simp_all add: dispatched_tasks_def matching_procedure_def spec_e2ap_def good_task_def
          is_reset_request_def spec_process_setup_response_def spec_process_outcome_def)
next
  case (Unsuccessful_outcome m)
  then show ?thesis
    by (cases m)
       (simp_all add: dispatched_tasks_def matching_procedure_def spec_e2ap_def good_task_def
          is_reset_request_def spec_process_e2_setup_failure_def spec_process_outcome_def)
next
  case Nulltype
  then show ?thesis
    by (simp add: dispatched_tasks_def matching_procedure_def)
qed

lemma sub_pending_timers_tic: "sub_pending s (spec_timers_tic s)"
  by (simp add: spec_timers_tic_def Let_def sub_pending_filter)

subsection \<open>What a step of the worker does\<close>

lemma send_e2ap_pdu_e2ap [simp]: "e2ap (snd (send_e2ap_pdu env p a)) = e2ap a"
  by (simp add: send_e2ap_pdu_keeps)

lemma send_e2ap_pdu_queue [simp]:
  "ric_rece_task_queue (snd (send_e2ap_pdu env p a)) = ric_rece_task_queue a"
  by (simp add: send_e2ap_pdu_keeps)

lemma send_e2ap_pdu_thread [simp]: "thread (snd (send_e2ap_pdu env p a)) = thread a"
  by (simp add: send_e2ap_pdu_keeps)

lemma send_e2ap_pdu_running [simp]: "running (snd (send_e2ap_pdu env p a)) = running a"
  by (simp add: send_e2ap_pdu_keeps)

lemma outbound_pdus_update [simp]:
  "outbound_pdus (a\<lparr>e2ap := e\<rparr>) = outbound_pdus a"
  "outbound_pdus (a\<lparr>ric_rece_task_queue := q\<rparr>) = outbound_pdus a"
  "outbound_pdus (a\<lparr>thread := th\<rparr>) = outbound_pdus a"
  "outbound_pdus (a\<lparr>running := r\<rparr>) = outbound_pdus a"
  by (simp_all add: outbound_pdus_def)

lemma run_task_outbound:
  "outbound_pdus (run_task env spec_e2ap t a) = outbound_pdus a @ sent_by t (e2ap a)"
proof (cases t)
  case (Rx_callback pdu)
  then show ?thesis
    using untouched_rx_msg [of a env spec_e2ap pdu]
    by (simp add: run_task_def sent_by_def untouched_def outbound_pdus_def)
next
  case Send_reset_resp
  then show ?thesis by (simp add: spec_send_reset_resp sent_by_def)
next
  case (Send_e2ap_pdu_task p)
  then show ?thesis by (simp add: run_task_def sent_by_def outbound_pdus_send_e2ap_pdu)
qed

lemma run_task_sub_pending: "sub_pending (e2ap a) (e2ap (run_task env spec_e2ap t a))"
proof (cases t)
  case (Rx_callback pdu)
  show ?thesis
  proof (cases "unpack env pdu")
    case None
    with Rx_callback show ?thesis
      by (simp add: run_task_def handle_e2_rx_msg_def log_def sub_pending_same)
  next
    case (Some pdu_c)
    with Rx_callback show ?thesis
      by (simp add: run_task_def rx_msg_effect sub_pending_dispatched)
  qed
next
  case Send_reset_resp
  then show ?thesis
    by (simp add: run_task_def send_e2_msg_def spec_e2ap_def spec_generate_reset_response_def
        sub_pending_same)
next
  case (Send_e2ap_pdu_task p)
  then show ?thesis by (simp add: run_task_def sub_pending_same)
qed

lemma run_task_queue:
  "\<exists>ts. ric_rece_task_queue (run_task env spec_e2ap t a) = ric_rece_task_queue a @ ts \<and>
        list_all good_task ts"
proof (cases t)
  case (Rx_callback pdu)
  show ?thesis
  proof (cases "unpack env pdu")
    case None
    with Rx_callback show ?thesis
      by (simp add: run_task_def handle_e2_rx_msg_def log_def)
  next
    case (Some pdu_c)
    with Rx_callback show ?thesis
      by (simp add: run_task_def rx_msg_effect good_dispatched)
  qed
next
  case Send_reset_resp
  then show ?thesis
    by (simp add: run_task_def send_e2_msg_def spec_e2ap_def spec_generate_reset_response_def)
next
  case (Send_e2ap_pdu_task p)
  then show ?thesis by (simp add: run_task_def)
qed

lemma setup_if_needed_spec:
  "setup_if_needed env spec_e2ap a =
     (if spec_send_setup_request (e2ap a)
      then snd (send_e2ap_pdu env
                  (Init_msg (E2setup_request \<lparr>transaction_id = next_transaction_id (e2ap a)\<rparr>))
                  (a\<lparr>e2ap := (register_pending Setup_procedure (e2ap a))
                               \<lparr>setup_state := Awaiting_setup_response\<rparr>\<rparr>))
      else a)"
  by (simp add: setup_if_needed_def send_e2_msg_def spec_e2ap_def
      spec_generate_setup_request_def)

lemma pending_of_register:
  "pending_of k (register_pending k s) =
     pending_of k s @
     [\<lparr>kind = k, correlation_key = next_transaction_id s, created = clock s,
       deadline = clock s + procedure_timeout s\<rparr>]"
  by (simp add: pending_of_def register_pending_def)

lemma send_setup_request_after_tic:
  "spec_send_setup_request s \<Longrightarrow> spec_send_setup_request (spec_timers_tic s)"
proof -
  assume a: "spec_send_setup_request s"
  then have none: "filter (\<lambda>p. kind p = Setup_procedure) (pending s) = []"
    by (simp add: spec_send_setup_request_def pending_of_def)
  then have "filter (\<lambda>p. kind p = Setup_procedure) (filter Q (pending s)) = []" for Q
    by (simp add: filter_empty_conv)
  with a show ?thesis
    by (simp add: spec_send_setup_request_def spec_timers_tic_def Let_def pending_of_def)
qed

subsection \<open>The invariant\<close>

lemma inv_rx:
  assumes "agent_inv a"
  shows "agent_inv (a\<lparr>ric_rece_task_queue := ric_rece_task_queue a @ [Rx_callback pdu]\<rparr>)"
  using assms by (simp add: agent_inv_def first_is_setup_request_def good_task_def)

lemma inv_stopping:
  assumes "agent_inv a"
  shows "agent_inv (a\<lparr>running := False\<rparr>)"
  using assms by (simp add: agent_inv_def first_is_setup_request_def)

lemma inv_tick:
  assumes "agent_inv a"
  shows "agent_inv (tic spec_e2ap a)"
proof -
  have e: "e2ap (tic spec_e2ap a) = spec_timers_tic (e2ap a)"
    "outbound_pdus (tic spec_e2ap a) = outbound_pdus a"
    "thread (tic spec_e2ap a) = thread a"
    "ric_rece_task_queue (tic spec_e2ap a) = ric_rece_task_queue a"
    by (simp_all add: tic_def spec_e2ap_def)
  have "length (pending_of Setup_procedure (spec_timers_tic (e2ap a))) \<le>
        length (pending_of Setup_procedure (e2ap a))"
    by (rule sub_pending_length [OF sub_pending_timers_tic])
  with assms show ?thesis
    by (auto simp: agent_inv_def first_is_setup_request_def e send_setup_request_after_tic)
qed

lemma inv_head:
  assumes "agent_inv a" "thread a = At_while"
  shows "agent_inv (run_thread_head env spec_e2ap a)"
proof (cases "running a \<and> spec_send_setup_request (e2ap a)")
  case False
  with assms show ?thesis
    by (auto simp: run_thread_head_def setup_if_needed_spec agent_inv_def
        first_is_setup_request_def)
next
  case True
  then have none: "pending_of Setup_procedure (e2ap a) = []"
    by (simp add: spec_send_setup_request_def)
  let ?p = "Init_msg (E2setup_request \<lparr>transaction_id = next_transaction_id (e2ap a)\<rparr>)"
  let ?b = "a\<lparr>e2ap := (register_pending Setup_procedure (e2ap a))
                         \<lparr>setup_state := Awaiting_setup_response\<rparr>\<rparr>"
  have h: "run_thread_head env spec_e2ap a = (snd (send_e2ap_pdu env ?p ?b))\<lparr>thread := At_run_next_task\<rparr>"
    using True by (simp add: run_thread_head_def setup_if_needed_spec)
  have out: "outbound_pdus (run_thread_head env spec_e2ap a) = outbound_pdus a @ [?p]"
    by (simp add: h outbound_pdus_send_e2ap_pdu)
  have pend: "pending_of Setup_procedure (e2ap (run_thread_head env spec_e2ap a)) =
      pending_of Setup_procedure (register_pending Setup_procedure (e2ap a))"
    by (simp add: h pending_of_def)
  have q: "ric_rece_task_queue (run_thread_head env spec_e2ap a) = ric_rece_task_queue a"
    by (simp add: h)
  have first: "is_setup_request (hd (outbound_pdus a @ [?p]))"
    using assms(1)
    by (cases "outbound_pdus a")
       (simp_all add: agent_inv_def first_is_setup_request_def is_setup_request_def)
  from assms(1) show ?thesis
    by (simp add: agent_inv_def first_is_setup_request_def out pend q pending_of_register
        none first)
qed

lemma inv_next_task:
  assumes "agent_inv a" "thread a = At_run_next_task" "run_next_task env spec_e2ap a = Some a'"
  shows "agent_inv (a'\<lparr>thread := At_while\<rparr>)"
proof -
  from assms(3) obtain t q where q: "ric_rece_task_queue a = t # q"
    and a': "a' = run_task env spec_e2ap t (a\<lparr>ric_rece_task_queue := q\<rparr>)"
    by (auto simp: run_next_task_def split: list.splits)
  let ?b = "a\<lparr>ric_rece_task_queue := q\<rparr>"
  from assms(1,2) have ne: "outbound_pdus a \<noteq> []" and
    fst: "is_setup_request (hd (outbound_pdus a))"
    by (auto simp: agent_inv_def first_is_setup_request_def split: if_splits)
  have out: "outbound_pdus a' = outbound_pdus a @ sent_by t (e2ap a)"
    unfolding a' using run_task_outbound [of env t ?b] by simp
  have "length (pending_of Setup_procedure (e2ap a')) \<le>
        length (pending_of Setup_procedure (e2ap ?b))"
    unfolding a' by (rule sub_pending_length [OF run_task_sub_pending])
  with assms(1) have n: "length (pending_of Setup_procedure (e2ap a')) \<le> 1"
    by (simp add: agent_inv_def)
  from run_task_queue [of env t ?b] obtain ts where
    ts: "ric_rece_task_queue a' = q @ ts" "list_all good_task ts"
    unfolding a' by auto
  from assms(1) q have "list_all good_task q"
    by (simp add: agent_inv_def)
  with ts have g: "list_all good_task (ric_rece_task_queue a')" by simp
  from ne fst n g show ?thesis
    by (simp add: agent_inv_def first_is_setup_request_def out)
qed

lemma inv_step:
  assumes "agent_step env spec_e2ap a a'" "agent_inv a"
  shows "agent_inv a'"
  using assms
proof (cases rule: agent_step.cases)
  case (rx pdu)
  with assms(2) show ?thesis by (simp add: inv_rx)
next
  case tick
  with assms(2) show ?thesis by (simp add: inv_tick)
next
  case stopping
  with assms(2) show ?thesis by (simp add: inv_stopping)
next
  case head
  with assms(2) show ?thesis by (simp add: inv_head)
next
  case (next_task b)
  with assms(2) show ?thesis by (simp add: inv_next_task)
qed

lemma inv_init: "agent_inv (snd (init env (e2_agent_ctor (e2ap_ctor timeout backoff))))"
  by (simp add: init_def e2_agent_ctor_def e2ap_ctor_def agent_inv_def
      first_is_setup_request_def outbound_pdus_def spec_send_setup_request_def pending_of_def)

lemma inv_reachable:
  assumes "reachable env spec_e2ap (snd (init env (e2_agent_ctor (e2ap_ctor timeout backoff)))) a"
  shows "agent_inv a"
  using assms
proof (induction rule: reachable.induct)
  case start
  show ?case by (rule inv_init)
next
  case (step a a')
  then show ?case by (simp add: inv_step)
qed


subsection \<open>Schedules\<close>




subsection \<open>An execution\<close>

lemma awaiting_agent_eq:
  "awaiting_agent =
     \<lparr>running = True, ric_socket = Sock_connected, ric_rece_task_queue = [],
      e2ap = (e2ap_ctor 5 3)
        \<lparr>setup_state := Awaiting_setup_response,
          pending := [\<lparr>kind = Setup_procedure, correlation_key = 0, created = 0, deadline = 5\<rparr>],
          next_transaction_id := 1\<rparr>,
      thread = At_run_next_task, logger = [],
      outbound = [(Init_msg (E2setup_request \<lparr>transaction_id = 0\<rparr>), Sent [0])]\<rparr>"
  by (simp add: awaiting_agent_def run_thread_head_def setup_if_needed_spec started_agent_eq
      spec_send_setup_request_def pending_of_def e2ap_ctor_def register_pending_def
      send_e2ap_pdu_def send_sctp_def env_ok_def)


lemma reachable_awaiting_agent:
  "reachable env_ok spec_e2ap (snd (init env_ok (e2_agent_ctor (e2ap_ctor 5 3)))) awaiting_agent"
proof -
  have s: "snd (init env_ok (e2_agent_ctor (e2ap_ctor 5 3))) = started_agent"
    by (simp add: started_agent_def fresh_agent_def)
  have "thread started_agent = At_while" by (simp add: started_agent_eq)
  then have "agent_step env_ok spec_e2ap started_agent awaiting_agent"
    unfolding awaiting_agent_def by (rule agent_step.head)
  with reachable.start [of env_ok spec_e2ap started_agent] show ?thesis
    unfolding s by (rule reachable.step)
qed

lemma reachable_established_agent:
  "reachable env_ok spec_e2ap (snd (init env_ok (e2_agent_ctor (e2ap_ctor 5 3))))
     established_agent"
proof -
  have "thread awaiting_agent \<noteq> Not_started" by (simp add: awaiting_agent_eq)
  then have "agent_step env_ok spec_e2ap awaiting_agent response_queued_agent"
    unfolding response_queued_agent_def by (rule agent_step.rx)
  with reachable_awaiting_agent have r: "reachable env_ok spec_e2ap
      (snd (init env_ok (e2_agent_ctor (e2ap_ctor 5 3)))) response_queued_agent"
    by (rule reachable.step)
  have t: "thread response_queued_agent = At_run_next_task"
    by (simp add: response_queued_agent_def awaiting_agent_eq)
  have n: "run_next_task env_ok spec_e2ap response_queued_agent =
      Some (run_task env_ok spec_e2ap (Rx_callback setup_response_7)
              (response_queued_agent\<lparr>ric_rece_task_queue := []\<rparr>))"
    by (simp add: run_next_task_def response_queued_agent_def awaiting_agent_eq)
  have "agent_step env_ok spec_e2ap response_queued_agent established_agent"
    unfolding established_agent_def by (rule agent_step.next_task [OF t n])
  with r show ?thesis by (rule reachable.step)
qed




text \<open>
  C4. In every reachable state of a started agent at most one Setup procedure is
  pending. While one is pending, a further setup attempt is rejected:
  \<open>send_setup_request\<close> is false and the pass of the worker through the head of the
  loop changes nothing, so no second Setup Request is made.
\<close>

theorem at_most_one_pending_setup:
  assumes "reachable env spec_e2ap (snd (init env (e2_agent_ctor (e2ap_ctor timeout backoff)))) a"
  shows "length (pending_of Setup_procedure (e2ap a)) \<le> 1 \<and>
    (pending_of Setup_procedure (e2ap a) \<noteq> [] \<longrightarrow>
       \<not> send_setup_request spec_e2ap (e2ap a) \<and> setup_if_needed env spec_e2ap a = a)"
proof -
  have "agent_inv a" using assms by (rule inv_reachable)
  moreover have "send_setup_request spec_e2ap = spec_send_setup_request"
    by (simp add: spec_e2ap_def)
  ultimately show ?thesis
    by (simp add: agent_inv_def setup_if_needed_spec spec_send_setup_request_def)
qed

theorem at_most_one_pending_setup_witness:
  "reachable env_ok spec_e2ap (snd (init env_ok (e2_agent_ctor (e2ap_ctor 5 3)))) awaiting_agent \<and>
   pending_of Setup_procedure (e2ap awaiting_agent) =
     [\<lparr>kind = Setup_procedure, correlation_key = 0, created = 0, deadline = 5\<rparr>] \<and>
   \<not> send_setup_request spec_e2ap (e2ap awaiting_agent) \<and>
   setup_if_needed env_ok spec_e2ap awaiting_agent = awaiting_agent"
proof -
  have p: "pending_of Setup_procedure (e2ap awaiting_agent) =
     [\<lparr>kind = Setup_procedure, correlation_key = 0, created = 0, deadline = 5\<rparr>]"
    by (simp add: awaiting_agent_eq pending_of_def)
  from at_most_one_pending_setup [OF reachable_awaiting_agent] p reachable_awaiting_agent
  show ?thesis by simp
qed

section \<open>Stopping\<close>

lemma run_thread_not_running: "\<not> running a \<Longrightarrow> run_thread env E a = Some a"
  by (subst run_thread.simps) simp

lemma running_update_idem: "\<not> running b \<Longrightarrow> b\<lparr>running := False\<rparr> = b"
  by (cases b) simp

text \<open>
  What \<open>stop\<close> comes to: the flag is cleared; a worker at the loop test returns; a
  worker about to run a task takes the oldest one, runs it and then returns, or waits for
  ever when there is none and none arrives.
\<close>

lemma stop_cases:
  "stop env E later a =
     (case thread a of
        Not_started \<Rightarrow> if join_not_running env then Some (a\<lparr>running := False\<rparr>) else None
      | Returned \<Rightarrow> if join_not_running env then Some (a\<lparr>running := False\<rparr>) else None
      | At_while \<Rightarrow>
          Some (a\<lparr>running := False,
                  ric_rece_task_queue := ric_rece_task_queue a @ map Rx_callback later,
                  thread := Returned\<rparr>)
      | At_run_next_task \<Rightarrow>
          (case ric_rece_task_queue a @ map Rx_callback later of
             [] \<Rightarrow> None
           | t # q \<Rightarrow>
               Some ((run_task env E t (a\<lparr>running := False, ric_rece_task_queue := q\<rparr>))
                       \<lparr>thread := Returned\<rparr>)))"
  by (simp add: stop_def wait_thread_finish_def received_def run_thread_not_running
      run_next_task_def run_task_keeps split: thread_state.splits list.splits)

lemma stop_blocks:
  "stop env E later a = None \<longleftrightarrow>
     thread a = At_run_next_task \<and> ric_rece_task_queue a = [] \<and> later = [] \<or>
     (thread a = Not_started \<or> thread a = Returned) \<and> \<not> join_not_running env"
  by (cases "thread a") (auto simp: stop_cases split: list.splits)

lemma stop_result:
  assumes "stop env E later a = Some b"
  shows "\<not> running b" "ric_socket b = ric_socket a"
    "thread b = Returned \<or> thread a = Not_started \<and> thread b = Not_started"
  using assms
  by (auto simp: stop_cases run_task_keeps split: thread_state.splits list.splits if_splits)

lemma stop_twice:
  assumes "stop env E later a = Some b"
  shows "stop env E later' b = (if join_not_running env then Some b else None)"
proof -
  from stop_result [OF assms] have nr: "\<not> running b" and
    th: "thread b = Returned \<or> thread b = Not_started"
    by auto
  from th have "stop env E later' b =
      (if join_not_running env then Some (b\<lparr>running := False\<rparr>) else None)"
    by (auto simp: stop_cases)
  with nr show ?thesis by (simp add: running_update_idem)
qed

text \<open>
  C7, as the code has it. \<open>stop\<close> returns unless the worker waits for a task with none
  queued and none arriving, or the join of a worker that is not running does not return.
  When \<open>stop\<close> has returned, \<open>running\<close> is cleared, the worker is not running (it has
  returned, or was never started) and the socket is what it was: \<open>stop\<close> does not close
  the transport endpoint. A second \<open>stop\<close> in succession joins a worker that is not
  running: where that join returns, the second \<open>stop\<close> returns the same state, whatever
  arrives meanwhile.
\<close>

theorem stop_idempotent_socket_as_before:
  "(stop env E later a = None \<longleftrightarrow>
      thread a = At_run_next_task \<and> ric_rece_task_queue a = [] \<and> later = [] \<or>
      (thread a = Not_started \<or> thread a = Returned) \<and> \<not> join_not_running env) \<and>
   (\<forall>b. stop env E later a = Some b \<longrightarrow>
      \<not> running b \<and> ric_socket b = ric_socket a \<and>
      (thread b = Returned \<or> thread a = Not_started \<and> thread b = Not_started) \<and>
      stop env E later' b = (if join_not_running env then Some b else None))"
  using stop_blocks [of env E later a] stop_result [of env E later a]
    stop_twice [of env E later a _ later']
  by blast

theorem stop_idempotent_socket_as_before_witness:
  "stop env_ok spec_e2ap [[7, 7]] awaiting_agent =
     Some (awaiting_agent\<lparr>running := False, thread := Returned,
             logger := [(Error, ''Failed to unpack RX E2 PDU'', [])]\<rparr>) \<and>
   stop env_ok spec_e2ap [[7, 7]]
       (awaiting_agent\<lparr>running := False, thread := Returned,
          logger := [(Error, ''Failed to unpack RX E2 PDU'', [])]\<rparr>) =
     Some (awaiting_agent\<lparr>running := False, thread := Returned,
             logger := [(Error, ''Failed to unpack RX E2 PDU'', [])]\<rparr>)"
proof -
  have u: "unpack env_ok [7, 7] = None"
    by (simp add: env_ok_def example_unpack_def)
  have s: "stop env_ok spec_e2ap [[7, 7]] awaiting_agent =
     Some (awaiting_agent\<lparr>running := False, thread := Returned,
             logger := [(Error, ''Failed to unpack RX E2 PDU'', [])]\<rparr>)"
    by (simp add: stop_cases awaiting_agent_eq run_task_def handle_e2_rx_msg_def u log_def)
  have j: "join_not_running env_ok" by (simp add: env_ok_def)
  from stop_idempotent_socket_as_before
    [of env_ok spec_e2ap "[[7, 7]]" awaiting_agent "[[7, 7]]"] s j
  show ?thesis by simp
qed

text \<open>
  The specification has \<open>stop\<close> close the transport endpoint exactly once, and a double
  stop be a no-op in every state. After \<open>stop\<close> on a started agent the socket is still
  connected. \<open>stop\<close> does not return while the worker waits for a task and nothing
  arrives. And where the thread class does not let a worker that has returned be joined
  again, the first \<open>stop\<close> returns and the second does not.
\<close>

theorem stop_leaves_socket_connected:
  "map_option ric_socket (stop env_ok spec_e2ap [] started_agent) = Some Sock_connected \<and>
   stop env_ok spec_e2ap [] awaiting_agent = None \<and>
   stop env_no_second_join spec_e2ap [] started_agent =
     Some (started_agent\<lparr>running := False, thread := Returned\<rparr>) \<and>
   stop env_no_second_join spec_e2ap []
     (started_agent\<lparr>running := False, thread := Returned\<rparr>) = None"
  by (simp add: stop_cases started_agent_eq awaiting_agent_eq env_no_second_join_def)

section \<open>Requests and their answers\<close>











end
